theory Spec2Isabelle
  imports Main "HOL-Library.Word"
begin

section \<open>Object identifiers and decimal rendering\<close>

text \<open>
  \<open>std::to_string\<close> on an unsigned integer: the decimal digits, most significant
  first, no sign and no leading zero (a single \<open>0\<close> for zero).
\<close>

definition digit_char :: "nat \<Rightarrow> char" where
  "digit_char d = char_of (48 + d)"

fun to_string :: "nat \<Rightarrow> string" where
  "to_string n = (if n < 10 then [digit_char n] else to_string (n div 10) @ [digit_char (n mod 10)])"

declare to_string.simps [simp del]

text \<open>
  Modelled from the spec: \<open>object_id_type\<close> and its conversion to \<open>std::string\<close> are
  declared in the object database library, of which only the uses in the plugin are at
  hand. The spec's examples write identifiers as \<open>1.2.5\<close> and \<open>1.7.3\<close>: space, type and
  instance in decimal, separated by dots. The typed
  identifiers of the protocol (\<open>account_id_type\<close>, \<open>content_card_id_type\<close>, ...) are
  converted to \<open>object_id_type\<close> before rendering, so one type stands for all of them.
\<close>

datatype object_id_type = Object_id_type (space_id: nat) (type_id: nat) (instance_id: nat)

definition object_id_to_string :: "object_id_type \<Rightarrow> string" where
  "object_id_to_string x =
     to_string (space_id x) @ ''.'' @ to_string (type_id x) @ ''.'' @ to_string (instance_id x)"

section \<open>Room operations: validation\<close>

text \<open>
  \<open>share_type\<close> is a signed 64-bit amount. \<open>FC_ASSERT\<close> throws an assertion exception
  carrying the optional message; the checks run in the order of the source and the first
  failing one decides the exception. \<open>validate\<close> is a \<open>const\<close> member: it returns nothing
  and changes nothing, so the model returns the unit value or the exception.
\<close>

record asset =
  amount :: "64 word"
  asset_id :: object_id_type

record room_create_operation =
  fee :: asset
  owner :: object_id_type
  name :: string
  room_key :: string

datatype fc_exception = Assert_exception string

definition room_create_validate :: "room_create_operation \<Rightarrow> fc_exception + unit" where
  "room_create_validate op =
     (if \<not> (0 \<le> sint (amount (fee op))) then Inl (Assert_exception '''')
      else if \<not> (name op \<noteq> []) then Inl (Assert_exception ''Room name cannot be empty'')
      else if \<not> (length (name op) \<le> 256)
        then Inl (Assert_exception ''Room name too long (max 256 characters)'')
      else if \<not> (room_key op \<noteq> []) then Inl (Assert_exception ''Room key cannot be empty'')
      else Inr ())"

section \<open>The relational store\<close>

text \<open>
  The plugin talks to PostgreSQL through SQL text. The model keeps each statement as a
  term with the parts the text spells out: the table, the column list with its values,
  the conflict target with its \<open>SET\<close> list, or the \<open>SET\<close> list with its \<open>WHERE\<close>
  comparison. The column names are those of \<open>create_tables\<close>; the columns \<open>id\<close> (a
  serial number) and \<open>created_at\<close> (the wall clock of the insert) are filled by the
  store, never named by a statement, and are left out.
\<close>

datatype table_name = Indexer_content_cards | Indexer_permissions

datatype column =
    Content_card_id | Permission_id | Subject_account | Operator_account
  | Hash | Url | Type | Description | Permission_type | Object_id
  | Content_key | Storage_data
  | Block_num | Block_time | Trx_id | Operation_type | Is_removed

text \<open>
  A string literal is kept as the text it denotes, a number as its value,
  \<open>to_timestamp(n)\<close> as the number of seconds it is applied to.
\<close>

datatype sql_value = Null | Text string | Number nat | To_timestamp nat | Boolean bool

datatype set_expr = Excluded column | Literal sql_value

datatype sql_stmt =
    Insert_on_conflict table_name "(column \<times> sql_value) list" column "(column \<times> set_expr) list"
  | Update_where table_name "(column \<times> sql_value) list" column sql_value

type_synonym row = "column \<Rightarrow> sql_value"
type_synonym table = "sql_value \<rightharpoonup> row"
type_synonym database = "table_name \<Rightarrow> table"

text \<open>
  Both tables of \<open>create_tables\<close> declare one \<open>UNIQUE\<close> column, so a table is a map
  from the value of that column to the row holding it. \<open>is_removed\<close> has the default
  \<open>FALSE\<close>; a column without a default that an insert does not name is \<open>NULL\<close>.
\<close>

fun unique_column :: "table_name \<Rightarrow> column" where
  "unique_column Indexer_content_cards = Content_card_id"
| "unique_column Indexer_permissions = Permission_id"

definition column_default :: "column \<Rightarrow> sql_value" where
  "column_default c = (if c = Is_removed then Boolean False else Null)"

definition inserted_row :: "(column \<times> sql_value) list \<Rightarrow> row" where
  "inserted_row vals = (\<lambda>c. case map_of vals c of Some v \<Rightarrow> v | None \<Rightarrow> column_default c)"

fun set_value :: "row \<Rightarrow> set_expr \<Rightarrow> sql_value" where
  "set_value excluded (Excluded c) = excluded c"
| "set_value excluded (Literal v) = v"

definition assign :: "(column \<times> sql_value) list \<Rightarrow> row \<Rightarrow> row" where
  "assign sets r = (\<lambda>c. case map_of sets c of Some v \<Rightarrow> v | None \<Rightarrow> r c)"

text \<open>
  What the store does with a statement, \<open>None\<close> when it answers with an error.
  \<^item> \<open>INSERT ... ON CONFLICT (target) DO UPDATE SET ...\<close>: with no row under the
    inserted key the proposed row is stored; otherwise the existing row is kept and
    only the columns of the \<open>SET\<close> list are assigned, \<open>EXCLUDED.c\<close> being column \<open>c\<close> of
    the proposed row. The target must be the table's unique column and the key must
    not be \<open>NULL\<close> (the column is \<open>NOT NULL\<close>).
  \<^item> \<open>UPDATE ... SET ... WHERE column = value\<close>: the row found under the value gets
    the columns of the \<open>SET\<close> list assigned; with no such row nothing changes and the
    statement still succeeds.
  Only comparisons on the unique column are executed, and a \<open>SET\<close> list that assigns
  the unique column is answered with an error: the handlers issue no such statement.
\<close>

fun exec_stmt :: "database \<Rightarrow> sql_stmt \<Rightarrow> database option" where
  "exec_stmt db (Insert_on_conflict t vals target sets) =
     (let proposed = inserted_row vals; key = proposed target in
      if target \<noteq> unique_column t \<or> key = Null \<or> target \<in> fst ` set sets then None
      else Some (db(t := (db t)(key \<mapsto>
        (case db t key of
           None \<Rightarrow> proposed
         | Some existing \<Rightarrow>
             assign (map (\<lambda>(c, e). (c, set_value proposed e)) sets) existing)))))"
| "exec_stmt db (Update_where t sets wcol wval) =
     (if wcol \<noteq> unique_column t \<or> wcol \<in> fst ` set sets then None
      else Some (case db t wval of
                   None \<Rightarrow> db
                 | Some existing \<Rightarrow> db(t := (db t)(wval \<mapsto> assign sets existing))))"

text \<open>
  A live connection: the tables behind it, the statements it was handed so far (oldest
  first), which strings \<open>PQescapeLiteral\<close> can quote (it returns a null pointer for the
  others), and which calls the store answers with an error: \<open>refused conn n sql\<close> says
  so for the statement \<open>sql\<close> arriving as call number \<open>n\<close> (counted from 0). The answer
  is taken anew at every call, so the same statement can fail once and succeed when it
  is sent again (a lost session), or fail every time (a value too long for its
  column). A refused statement changes no table.
\<close>

record PGconn =
  tables :: database
  sent :: "sql_stmt list"
  quotable :: "string \<Rightarrow> bool"
  refused :: "nat \<Rightarrow> sql_stmt \<Rightarrow> bool"

definition PQescapeLiteral :: "PGconn \<Rightarrow> string \<Rightarrow> string option" where
  "PQescapeLiteral conn input = (if quotable conn input then Some input else None)"

definition PQexec :: "PGconn \<Rightarrow> sql_stmt \<Rightarrow> PGconn \<times> bool" where
  "PQexec conn sql =
     (let conn' = conn\<lparr>sent := sent conn @ [sql]\<rparr> in
      if refused conn (length (sent conn)) sql then (conn', False)
      else (case exec_stmt (tables conn) sql of
              None \<Rightarrow> (conn', False)
            | Some db' \<Rightarrow> (conn'\<lparr>tables := db'\<rparr>, True)))"

section \<open>Protocol types read by the plugin\<close>

text \<open>
  The operation payloads, the operation results and the block are declared in the
  protocol headers \<open>content_card.hpp\<close>, \<open>permission.hpp\<close> and their includes; the
  records below hold the members the plugin reads, under the names it reads them by.
  A \<open>flat_set\<close> is kept as the list of its elements in iteration order, from \<open>begin()\<close>
  to \<open>end()\<close>. A \<open>time_point_sec\<close> is a 32-bit count of seconds.
\<close>

type_synonym 'a flat_set = "'a list"
type_synonym time_point_sec = "32 word"

definition sec_since_epoch :: "time_point_sec \<Rightarrow> 32 word" where
  "sec_since_epoch t = t"

record generic_operation_result =
  new_objects :: "object_id_type flat_set"

text \<open>
  The result of an operation: a tagged union whose tags are listed in the comment of
  \<open>get_object_id_from_result\<close> (0 void, 1 object id, 2 asset, 3 generic result, then
  further variants). \<open>get\<close> on a variant of another type throws, which is \<open>None\<close>.
\<close>

datatype operation_result =
    Void_result
  | Object_id_result object_id_type
  | Asset_result asset
  | Generic_result generic_operation_result
  | Other_result nat

fun result_which :: "operation_result \<Rightarrow> nat" where
  "result_which Void_result = 0"
| "result_which (Object_id_result x) = 1"
| "result_which (Asset_result a) = 2"
| "result_which (Generic_result g) = 3"
| "result_which (Other_result n) = 4 + n"

fun get_object_id_type :: "operation_result \<Rightarrow> object_id_type option" where
  "get_object_id_type (Object_id_result x) = Some x"
| "get_object_id_type r = None"

fun get_generic_operation_result :: "operation_result \<Rightarrow> generic_operation_result option" where
  "get_generic_operation_result (Generic_result g) = Some g"
| "get_generic_operation_result r = None"

record content_card_create_operation =
  subject_account :: object_id_type
  hash :: string
  url :: string
  type :: string
  description :: string
  content_key :: string
  storage_data :: string

record content_card_update_operation =
  subject_account :: object_id_type
  hash :: string
  url :: string
  type :: string
  description :: string
  content_key :: string
  storage_data :: string

record content_card_remove_operation =
  content_id :: object_id_type

record permission_create_operation =
  subject_account :: object_id_type
  operator_account :: object_id_type
  permission_type :: string
  object_id :: "object_id_type option"
  content_key :: string

record permission_data =
  operator_account :: object_id_type
  permission_type :: string
  object_id :: "object_id_type option"
  content_key :: string

record permission_create_many_operation =
  subject_account :: object_id_type
  permissions :: "permission_data list"

record permission_remove_operation =
  permission_id :: object_id_type

text \<open>
  The operation of the chain: a tagged union. The plugin names six tags (41 to 45 in
  its comment, 64 in its last branch); every other member of the union carries one of
  the remaining tags.
\<close>

typedef other_tag = "{n :: nat. n \<notin> {41, 42, 43, 44, 45, 64}}"
  by (rule exI [of _ 0]) simp

setup_lifting type_definition_other_tag

lift_definition other_tag_which :: "other_tag \<Rightarrow> nat" is "\<lambda>n. n" .

lift_definition make_other_tag :: "nat \<Rightarrow> other_tag"
  is "\<lambda>n. if n \<in> {41, 42, 43, 44, 45, 64} then 0 else n"
  by simp

datatype operation =
    Content_card_create content_card_create_operation
  | Content_card_update content_card_update_operation
  | Content_card_remove content_card_remove_operation
  | Permission_create permission_create_operation
  | Permission_remove permission_remove_operation
  | Permission_create_many permission_create_many_operation
  | Other_operation other_tag

fun operation_which :: "operation \<Rightarrow> nat" where
  "operation_which (Content_card_create x) = 41"
| "operation_which (Content_card_update x) = 42"
| "operation_which (Content_card_remove x) = 43"
| "operation_which (Permission_create x) = 44"
| "operation_which (Permission_remove x) = 45"
| "operation_which (Permission_create_many x) = 64"
| "operation_which (Other_operation t) = other_tag_which t"

fun get_content_card_create :: "operation \<Rightarrow> content_card_create_operation option" where
  "get_content_card_create (Content_card_create x) = Some x"
| "get_content_card_create v = None"

fun get_content_card_update :: "operation \<Rightarrow> content_card_update_operation option" where
  "get_content_card_update (Content_card_update x) = Some x"
| "get_content_card_update v = None"

fun get_content_card_remove :: "operation \<Rightarrow> content_card_remove_operation option" where
  "get_content_card_remove (Content_card_remove x) = Some x"
| "get_content_card_remove v = None"

fun get_permission_create :: "operation \<Rightarrow> permission_create_operation option" where
  "get_permission_create (Permission_create x) = Some x"
| "get_permission_create v = None"

fun get_permission_remove :: "operation \<Rightarrow> permission_remove_operation option" where
  "get_permission_remove (Permission_remove x) = Some x"
| "get_permission_remove v = None"

fun get_permission_create_many :: "operation \<Rightarrow> permission_create_many_operation option" where
  "get_permission_create_many (Permission_create_many x) = Some x"
| "get_permission_create_many v = None"

text \<open>
  One applied operation with its result and the index of its transaction in the block,
  and the block: its number, its timestamp and its transactions, each kept as the text
  \<open>id().str()\<close> gives for it.
\<close>

record operation_history_object =
  op :: operation
  result :: operation_result
  trx_in_block :: nat

record signed_block =
  block_num :: "32 word"
  timestamp :: time_point_sec
  transactions :: "string list"

section \<open>The plugin\<close>

text \<open>
  The state of \<open>postgres_content_plugin_impl\<close>: the connection (\<open>None\<close> for the null
  pointer) and the configured start block. Logging is not part of the model.
\<close>

record postgres_content_plugin_impl =
  pg_conn :: "PGconn option"
  start_block :: "32 word"

text \<open>
  \<open>escape_string\<close>: without a connection the input comes back as it is; when
  \<open>PQescapeLiteral\<close> returns a null pointer the result is the literal of the empty
  text; otherwise the literal of the input.
\<close>

definition escape_string :: "postgres_content_plugin_impl \<Rightarrow> string \<Rightarrow> string" where
  "escape_string impl input =
     (case pg_conn impl of
        None \<Rightarrow> input
      | Some conn \<Rightarrow>
          (case PQescapeLiteral conn input of None \<Rightarrow> [] | Some escaped \<Rightarrow> escaped))"

definition execute_sql ::
  "postgres_content_plugin_impl \<Rightarrow> sql_stmt \<Rightarrow> bool \<times> postgres_content_plugin_impl" where
  "execute_sql impl sql =
     (case pg_conn impl of
        None \<Rightarrow> (False, impl)
      | Some conn \<Rightarrow>
          (let (conn', success) = PQexec conn sql in (success, impl\<lparr>pg_conn := Some conn'\<rparr>)))"

definition get_object_id_from_result :: "operation_result \<Rightarrow> string option" where
  "get_object_id_from_result result =
     (if result_which result = 1 then map_option object_id_to_string (get_object_id_type result)
      else Some [])"
  for result

subsection \<open>The statements of the handlers\<close>

text \<open>
  Each handler builds one statement (\<open>std::string sql = ...\<close>) and executes it; the
  statement of each handler is a definition of its own here, named after the handler.
\<close>

definition content_card_create_sql ::
  "postgres_content_plugin_impl \<Rightarrow> content_card_create_operation \<Rightarrow> 32 word \<Rightarrow> time_point_sec \<Rightarrow>
   string \<Rightarrow> string \<Rightarrow> sql_stmt" where
  "content_card_create_sql impl op block_num block_time trx_id object_id =
     (let subject_account = object_id_to_string (content_card_create_operation.subject_account op);
          content_card_id = (if object_id = [] then ''pending-'' @ trx_id else object_id)
      in Insert_on_conflict Indexer_content_cards
           [(Content_card_id, Text (escape_string impl content_card_id)),
            (Subject_account, Text (escape_string impl subject_account)),
            (Hash, Text (escape_string impl (content_card_create_operation.hash op))),
            (Url, Text (escape_string impl (content_card_create_operation.url op))),
            (Type, Text (escape_string impl (content_card_create_operation.type op))),
            (Description, Text (escape_string impl (content_card_create_operation.description op))),
            (Content_key, Text (escape_string impl (content_card_create_operation.content_key op))),
            (Storage_data, Text (escape_string impl (content_card_create_operation.storage_data op))),
            (Block_num, Number (unat block_num)),
            (Block_time, To_timestamp (unat (sec_since_epoch block_time))),
            (Trx_id, Text (escape_string impl trx_id)),
            (Operation_type, Number 41),
            (Is_removed, Boolean False)]
           Content_card_id
           [(Hash, Excluded Hash), (Url, Excluded Url), (Type, Excluded Type),
            (Description, Excluded Description), (Content_key, Excluded Content_key),
            (Storage_data, Excluded Storage_data)])"
  for op block_num trx_id object_id

definition content_card_update_sql ::
  "postgres_content_plugin_impl \<Rightarrow> content_card_update_operation \<Rightarrow> 32 word \<Rightarrow> time_point_sec \<Rightarrow>
   string \<Rightarrow> string \<Rightarrow> sql_stmt" where
  "content_card_update_sql impl op block_num block_time trx_id object_id =
     (let subject_account = object_id_to_string (content_card_update_operation.subject_account op);
          content_card_id = (if object_id = [] then ''pending-'' @ trx_id else object_id)
      in Insert_on_conflict Indexer_content_cards
           [(Content_card_id, Text (escape_string impl content_card_id)),
            (Subject_account, Text (escape_string impl subject_account)),
            (Hash, Text (escape_string impl (content_card_update_operation.hash op))),
            (Url, Text (escape_string impl (content_card_update_operation.url op))),
            (Type, Text (escape_string impl (content_card_update_operation.type op))),
            (Description, Text (escape_string impl (content_card_update_operation.description op))),
            (Content_key, Text (escape_string impl (content_card_update_operation.content_key op))),
            (Storage_data, Text (escape_string impl (content_card_update_operation.storage_data op))),
            (Block_num, Number (unat block_num)),
            (Block_time, To_timestamp (unat (sec_since_epoch block_time))),
            (Trx_id, Text (escape_string impl trx_id)),
            (Operation_type, Number 42),
            (Is_removed, Boolean False)]
           Content_card_id
           [(Hash, Excluded Hash), (Url, Excluded Url), (Type, Excluded Type),
            (Description, Excluded Description), (Content_key, Excluded Content_key),
            (Storage_data, Excluded Storage_data), (Block_num, Excluded Block_num),
            (Block_time, Excluded Block_time), (Operation_type, Literal (Number 42))])"
  for op block_num trx_id object_id

definition content_card_remove_sql ::
  "postgres_content_plugin_impl \<Rightarrow> content_card_remove_operation \<Rightarrow> 32 word \<Rightarrow> time_point_sec \<Rightarrow>
   string \<Rightarrow> sql_stmt" where
  "content_card_remove_sql impl op block_num block_time trx_id =
     (let content_id = object_id_to_string (content_card_remove_operation.content_id op)
      in Update_where Indexer_content_cards
           [(Is_removed, Boolean True),
            (Block_num, Number (unat block_num)),
            (Block_time, To_timestamp (unat (sec_since_epoch block_time))),
            (Operation_type, Number 43)]
           Content_card_id (Text (escape_string impl content_id)))"
  for op block_num trx_id

definition permission_create_sql ::
  "postgres_content_plugin_impl \<Rightarrow> permission_create_operation \<Rightarrow> 32 word \<Rightarrow> time_point_sec \<Rightarrow>
   string \<Rightarrow> string \<Rightarrow> sql_stmt" where
  "permission_create_sql impl op block_num block_time trx_id new_object_id =
     (let subject_account = object_id_to_string (permission_create_operation.subject_account op);
          operator_account = object_id_to_string (permission_create_operation.operator_account op);
          ref_object_id = (case permission_create_operation.object_id op of
                             Some x \<Rightarrow> object_id_to_string x | None \<Rightarrow> []);
          permission_id = (if new_object_id = [] then ''pending-'' @ trx_id else new_object_id)
      in Insert_on_conflict Indexer_permissions
           [(Permission_id, Text (escape_string impl permission_id)),
            (Subject_account, Text (escape_string impl subject_account)),
            (Operator_account, Text (escape_string impl operator_account)),
            (Permission_type, Text (escape_string impl (permission_create_operation.permission_type op))),
            (Object_id, Text (escape_string impl ref_object_id)),
            (Content_key, Text (escape_string impl (permission_create_operation.content_key op))),
            (Block_num, Number (unat block_num)),
            (Block_time, To_timestamp (unat (sec_since_epoch block_time))),
            (Trx_id, Text (escape_string impl trx_id)),
            (Operation_type, Number 44),
            (Is_removed, Boolean False)]
           Permission_id
           [(Permission_type, Excluded Permission_type), (Content_key, Excluded Content_key)])"
  for op block_num trx_id

text \<open>
  The statement of one round of the loop of \<open>handle_permission_create_many\<close>, for the
  batch item \<open>perm\<close> and the identifier chosen for it.
\<close>

definition permission_create_many_sql ::
  "postgres_content_plugin_impl \<Rightarrow> string \<Rightarrow> permission_data \<Rightarrow> string \<Rightarrow> 32 word \<Rightarrow>
   time_point_sec \<Rightarrow> string \<Rightarrow> sql_stmt" where
  "permission_create_many_sql impl subject_account perm permission_id block_num block_time trx_id =
     (let operator_account = object_id_to_string (permission_data.operator_account perm);
          ref_object_id = (case permission_data.object_id perm of
                             Some x \<Rightarrow> object_id_to_string x | None \<Rightarrow> [])
      in Insert_on_conflict Indexer_permissions
           [(Permission_id, Text (escape_string impl permission_id)),
            (Subject_account, Text (escape_string impl subject_account)),
            (Operator_account, Text (escape_string impl operator_account)),
            (Permission_type, Text (escape_string impl (permission_data.permission_type perm))),
            (Object_id, Text (escape_string impl ref_object_id)),
            (Content_key, Text (escape_string impl (permission_data.content_key perm))),
            (Block_num, Number (unat block_num)),
            (Block_time, To_timestamp (unat (sec_since_epoch block_time))),
            (Trx_id, Text (escape_string impl trx_id)),
            (Operation_type, Number 64),
            (Is_removed, Boolean False)]
           Permission_id
           [(Permission_type, Excluded Permission_type), (Content_key, Excluded Content_key)])"
  for subject_account permission_id block_num trx_id

definition permission_remove_sql ::
  "postgres_content_plugin_impl \<Rightarrow> permission_remove_operation \<Rightarrow> 32 word \<Rightarrow> time_point_sec \<Rightarrow>
   string \<Rightarrow> sql_stmt" where
  "permission_remove_sql impl op block_num block_time trx_id =
     (let permission_id = object_id_to_string (permission_remove_operation.permission_id op)
      in Update_where Indexer_permissions
           [(Is_removed, Boolean True),
            (Block_num, Number (unat block_num)),
            (Block_time, To_timestamp (unat (sec_since_epoch block_time))),
            (Operation_type, Number 45)]
           Permission_id (Text (escape_string impl permission_id)))"
  for op block_num trx_id

subsection \<open>The handlers\<close>

text \<open>
  A handler executes its statement and logs the outcome; whether the statement
  succeeded changes nothing else, so the handler returns the plugin state after
  \<open>execute_sql\<close>.
\<close>

definition handle_content_card_create ::
  "postgres_content_plugin_impl \<Rightarrow> content_card_create_operation \<Rightarrow> 32 word \<Rightarrow> time_point_sec \<Rightarrow>
   string \<Rightarrow> string \<Rightarrow> postgres_content_plugin_impl" where
  "handle_content_card_create impl op block_num block_time trx_id object_id =
     snd (execute_sql impl (content_card_create_sql impl op block_num block_time trx_id object_id))"
  for op block_num trx_id object_id

definition handle_content_card_update ::
  "postgres_content_plugin_impl \<Rightarrow> content_card_update_operation \<Rightarrow> 32 word \<Rightarrow> time_point_sec \<Rightarrow>
   string \<Rightarrow> string \<Rightarrow> postgres_content_plugin_impl" where
  "handle_content_card_update impl op block_num block_time trx_id object_id =
     snd (execute_sql impl (content_card_update_sql impl op block_num block_time trx_id object_id))"
  for op block_num trx_id object_id

definition handle_content_card_remove ::
  "postgres_content_plugin_impl \<Rightarrow> content_card_remove_operation \<Rightarrow> 32 word \<Rightarrow> time_point_sec \<Rightarrow>
   string \<Rightarrow> postgres_content_plugin_impl" where
  "handle_content_card_remove impl op block_num block_time trx_id =
     snd (execute_sql impl (content_card_remove_sql impl op block_num block_time trx_id))"
  for op block_num trx_id

definition handle_permission_create ::
  "postgres_content_plugin_impl \<Rightarrow> permission_create_operation \<Rightarrow> 32 word \<Rightarrow> time_point_sec \<Rightarrow>
   string \<Rightarrow> string \<Rightarrow> postgres_content_plugin_impl" where
  "handle_permission_create impl op block_num block_time trx_id new_object_id =
     snd (execute_sql impl (permission_create_sql impl op block_num block_time trx_id new_object_id))"
  for op block_num trx_id

text \<open>
  The loop of \<open>handle_permission_create_many\<close>: \<open>i\<close> is the index of the next batch item,
  \<open>items\<close> the batch from index \<open>i\<close> on, \<open>obj_it\<close> the identifiers from the iterator to
  \<open>end()\<close>. An item takes the identifier under the iterator and advances it; with the
  iterator at the end it takes the placeholder.
\<close>

fun permission_create_many_loop ::
  "postgres_content_plugin_impl \<Rightarrow> string \<Rightarrow> 32 word \<Rightarrow> time_point_sec \<Rightarrow> string \<Rightarrow>
   object_id_type list \<Rightarrow> nat \<Rightarrow> permission_data list \<Rightarrow> postgres_content_plugin_impl" where
  "permission_create_many_loop impl subject bnum btime trx obj_it i [] = impl"
| "permission_create_many_loop impl subject bnum btime trx obj_it i (perm # items) =
     (let (permission_id, obj_it') =
            (case obj_it of
               x # xs \<Rightarrow> (object_id_to_string x, xs)
             | [] \<Rightarrow> (''pending-'' @ trx @ ''-'' @ to_string i, []));
          sql = permission_create_many_sql impl subject perm permission_id bnum btime trx
      in permission_create_many_loop (snd (execute_sql impl sql)) subject bnum btime trx
           obj_it' (Suc i) items)"

definition handle_permission_create_many ::
  "postgres_content_plugin_impl \<Rightarrow> permission_create_many_operation \<Rightarrow> 32 word \<Rightarrow>
   time_point_sec \<Rightarrow> string \<Rightarrow> object_id_type flat_set \<Rightarrow> postgres_content_plugin_impl" where
  "handle_permission_create_many impl op block_num block_time trx_id new_objects =
     (let subject_account =
            object_id_to_string (permission_create_many_operation.subject_account op)
      in permission_create_many_loop impl subject_account block_num block_time trx_id
           new_objects 0 (permissions op))"
  for op block_num trx_id new_objects

definition handle_permission_remove ::
  "postgres_content_plugin_impl \<Rightarrow> permission_remove_operation \<Rightarrow> 32 word \<Rightarrow> time_point_sec \<Rightarrow>
   string \<Rightarrow> postgres_content_plugin_impl" where
  "handle_permission_remove impl op block_num block_time trx_id =
     snd (execute_sql impl (permission_remove_sql impl op block_num block_time trx_id))"
  for op block_num trx_id

subsection \<open>The block projector\<close>

text \<open>
  The identifiers handed to the bulk handler (the branch for tag 64 of \<open>on_block\<close>): the
  set of a generic result, the empty set for every other result.
\<close>

definition new_objects_from_result :: "operation_result \<Rightarrow> object_id_type flat_set option" where
  "new_objects_from_result result =
     (if result_which result = 3
      then map_option new_objects (get_generic_operation_result result)
      else Some [])"
  for result

text \<open>
  One round of the loop of \<open>on_block\<close> for a valid entry of the applied operations.
  \<open>None\<close> is an exception leaving the function (a \<open>get\<close> on the wrong variant).
\<close>

definition on_block_operation ::
  "postgres_content_plugin_impl \<Rightarrow> signed_block \<Rightarrow> operation_history_object \<Rightarrow>
   postgres_content_plugin_impl option" where
  "on_block_operation impl b o_op =
     (let op = operation_history_object.op o_op;
          result = operation_history_object.result o_op;
          trx_in_block = operation_history_object.trx_in_block o_op;
          block_num = signed_block.block_num b;
          trx_id = (if trx_in_block < length (transactions b) then transactions b ! trx_in_block
                    else [])
      in case get_object_id_from_result result of
           None \<Rightarrow> None
         | Some created_object_id \<Rightarrow>
             (let op_type = operation_which op in
              if op_type = 41 then
                map_option (\<lambda>x. handle_content_card_create impl x block_num (timestamp b) trx_id
                                  created_object_id)
                  (get_content_card_create op)
              else if op_type = 42 then
                map_option (\<lambda>x. handle_content_card_update impl x block_num (timestamp b) trx_id
                                  created_object_id)
                  (get_content_card_update op)
              else if op_type = 43 then
                map_option (\<lambda>x. handle_content_card_remove impl x block_num (timestamp b) trx_id)
                  (get_content_card_remove op)
              else if op_type = 44 then
                map_option (\<lambda>x. handle_permission_create impl x block_num (timestamp b) trx_id
                                  created_object_id)
                  (get_permission_create op)
              else if op_type = 45 then
                map_option (\<lambda>x. handle_permission_remove impl x block_num (timestamp b) trx_id)
                  (get_permission_remove op)
              else if op_type = 64 then
                Option.bind (new_objects_from_result result)
                  (\<lambda>new_objects.
                     map_option (\<lambda>x. handle_permission_create_many impl x block_num (timestamp b)
                                       trx_id new_objects)
                       (get_permission_create_many op))
              else Some impl))"

text \<open>
  The loop over the applied operations, in order; an entry that is not valid is skipped.
\<close>

fun on_block_loop ::
  "postgres_content_plugin_impl \<Rightarrow> signed_block \<Rightarrow> operation_history_object option list \<Rightarrow>
   postgres_content_plugin_impl option" where
  "on_block_loop impl b [] = Some impl"
| "on_block_loop impl b (None # hist) = on_block_loop impl b hist"
| "on_block_loop impl b (Some o_op # hist) =
     (case on_block_operation impl b o_op of
        None \<Rightarrow> None
      | Some impl' \<Rightarrow> on_block_loop impl' b hist)"

text \<open>
  \<open>on_block\<close>; \<open>hist\<close> is what \<open>get_applied_operations\<close> of the chain database returns
  for the block.
\<close>

definition on_block ::
  "postgres_content_plugin_impl \<Rightarrow> signed_block \<Rightarrow> operation_history_object option list \<Rightarrow>
   postgres_content_plugin_impl option" where
  "on_block impl b hist =
     (case pg_conn impl of
        None \<Rightarrow> Some impl
      | Some conn \<Rightarrow>
          (let block_num = signed_block.block_num b in
           if block_num < start_block impl then Some impl
           else on_block_loop impl b hist))"

section \<open>Observations, statement lists and rows\<close>

text \<open>
  What a run of the plugin leaves behind: the tables seen through its connection and
  the statements it handed to the connection. Without a connection there is neither.
\<close>

definition rows :: "postgres_content_plugin_impl \<Rightarrow> database" where
  "rows impl t = (case pg_conn impl of None \<Rightarrow> Map.empty | Some conn \<Rightarrow> tables conn t)"

definition statements_sent :: "postgres_content_plugin_impl \<Rightarrow> sql_stmt list" where
  "statements_sent impl = (case pg_conn impl of None \<Rightarrow> [] | Some conn \<Rightarrow> sent conn)"

text \<open>The values of some columns of the row under a key, \<open>None\<close> without such a row.\<close>

definition row_columns ::
  "postgres_content_plugin_impl \<Rightarrow> table_name \<Rightarrow> sql_value \<Rightarrow> column list \<Rightarrow> sql_value list option"
  where
  "row_columns impl t k cols = map_option (\<lambda>r. map r cols) (rows impl t k)"

text \<open>The key a statement addresses: the inserted key, or the value of the comparison.\<close>

fun stmt_key :: "sql_stmt \<Rightarrow> sql_value" where
  "stmt_key (Insert_on_conflict t vals target sets) = inserted_row vals target"
| "stmt_key (Update_where t sets wcol wval) = wval"

text \<open>Reading a decimal rendering back, to show that \<open>to_string\<close> loses nothing.\<close>

definition of_digits :: "string \<Rightarrow> nat" where
  "of_digits s = foldl (\<lambda>a c. 10 * a + (of_char c - 48)) 0 s"

text \<open>
  The identifier of batch item \<open>i\<close> in closed form: the \<open>i\<close>-th resolved identifier while
  there is one, the indexed placeholder after that.
\<close>

definition bulk_permission_id :: "string \<Rightarrow> object_id_type flat_set \<Rightarrow> nat \<Rightarrow> string" where
  "bulk_permission_id trx objs i =
     (if i < length objs then object_id_to_string (objs ! i)
      else ''pending-'' @ trx @ ''-'' @ to_string i)"

text \<open>Executing a list of statements in order, and the statements of a whole block.\<close>

definition run_stmts ::
  "postgres_content_plugin_impl \<Rightarrow> sql_stmt list \<Rightarrow> postgres_content_plugin_impl" where
  "run_stmts impl stmts = foldl (\<lambda>i sql. snd (execute_sql i sql)) impl stmts"

definition permission_create_many_statements ::
  "postgres_content_plugin_impl \<Rightarrow> permission_create_many_operation \<Rightarrow> 32 word \<Rightarrow>
   time_point_sec \<Rightarrow> string \<Rightarrow> object_id_type flat_set \<Rightarrow> sql_stmt list" where
  "permission_create_many_statements impl op block_num block_time trx_id new_objects =
     map (\<lambda>i. permission_create_many_sql impl
                 (object_id_to_string (permission_create_many_operation.subject_account op))
                 (permissions op ! i) (bulk_permission_id trx_id new_objects i)
                 block_num block_time trx_id)
       [0..<length (permissions op)]"
  for op block_num trx_id new_objects

definition created_object_id_of :: "operation_result \<Rightarrow> string" where
  "created_object_id_of r = (case r of Object_id_result x \<Rightarrow> object_id_to_string x | _ \<Rightarrow> [])"

definition operation_statements ::
  "postgres_content_plugin_impl \<Rightarrow> signed_block \<Rightarrow> operation_history_object \<Rightarrow> sql_stmt list" where
  "operation_statements impl b o_op =
     (let r = operation_history_object.result o_op;
          n = operation_history_object.trx_in_block o_op;
          trx = (if n < length (transactions b) then transactions b ! n else []);
          bn = signed_block.block_num b;
          bt = timestamp b
      in case operation_history_object.op o_op of
           Content_card_create x \<Rightarrow>
             [content_card_create_sql impl x bn bt trx (created_object_id_of r)]
         | Content_card_update x \<Rightarrow>
             [content_card_update_sql impl x bn bt trx (created_object_id_of r)]
         | Content_card_remove x \<Rightarrow> [content_card_remove_sql impl x bn bt trx]
         | Permission_create x \<Rightarrow>
             [permission_create_sql impl x bn bt trx (created_object_id_of r)]
         | Permission_remove x \<Rightarrow> [permission_remove_sql impl x bn bt trx]
         | Permission_create_many x \<Rightarrow>
             permission_create_many_statements impl x bn bt trx
               (case r of Generic_result g \<Rightarrow> new_objects g | _ \<Rightarrow> [])
         | Other_operation t \<Rightarrow> [])"

definition block_statements ::
  "postgres_content_plugin_impl \<Rightarrow> signed_block \<Rightarrow> operation_history_object option list \<Rightarrow>
   sql_stmt list" where
  "block_statements impl b hist =
     concat (map (\<lambda>entry. case entry of None \<Rightarrow> [] | Some o_op \<Rightarrow> operation_statements impl b o_op)
               hist)"

text \<open>
  What the chain guarantees of the statements of a finalized block. A remove addresses
  an identifier that exists on the chain when the remove is applied, and the chain
  assigns an identifier once, to the object it creates: after a remove of the block has
  addressed an identifier, no later statement of the block inserts under it.
\<close>

fun inserts_key :: "sql_stmt \<Rightarrow> table_name \<Rightarrow> sql_value \<Rightarrow> bool" where
  "inserts_key (Insert_on_conflict t' vals target sets) t k =
     (t' = t \<and> inserted_row vals target = k)"
| "inserts_key (Update_where t' sets wcol wval) t k = False"

fun no_insert_after_update :: "sql_stmt list \<Rightarrow> bool" where
  "no_insert_after_update [] = True"
| "no_insert_after_update (Insert_on_conflict t vals target sets # stmts) =
     no_insert_after_update stmts"
| "no_insert_after_update (Update_where t sets wcol wval # stmts) =
     (list_all (\<lambda>sql. \<not> inserts_key sql t wval) stmts \<and> no_insert_after_update stmts)"

text \<open>
  The store answers a replay as it answered the first pass: when \<open>stmts\<close> are sent
  twice in a row, each statement is refused the second time exactly if it was refused
  the first time. The calls are numbered from the statements sent so far. Without a
  connection there is no call to answer.
\<close>

definition answers_alike :: "postgres_content_plugin_impl \<Rightarrow> sql_stmt list \<Rightarrow> bool" where
  "answers_alike impl stmts =
     (case pg_conn impl of
        None \<Rightarrow> True
      | Some conn \<Rightarrow>
          (\<forall>i \<in> {0..<length stmts}.
             refused conn (length (sent conn) + length stmts + i) (stmts ! i) =
             refused conn (length (sent conn) + i) (stmts ! i)))"

text \<open>The statements of a list that are not refused when sent from call \<open>n\<close> on.\<close>

fun accepted :: "(nat \<Rightarrow> sql_stmt \<Rightarrow> bool) \<Rightarrow> nat \<Rightarrow> sql_stmt list \<Rightarrow> sql_stmt list" where
  "accepted R n [] = []"
| "accepted R n (sql # stmts) =
     (if R n sql then accepted R (Suc n) stmts else sql # accepted R (Suc n) stmts)"

text \<open>
  The effect of one accepted statement on the row under one key of one table: the row
  it inserts when there is none (\<open>fresh_row\<close>), the columns it overwrites when there is
  one (\<open>row_patch\<close>).
\<close>

definition overwrite :: "(column \<rightharpoonup> sql_value) \<Rightarrow> row \<Rightarrow> row" where
  "overwrite m r = (\<lambda>c. case m c of Some v \<Rightarrow> v | None \<Rightarrow> r c)"

fun valid_stmt :: "sql_stmt \<Rightarrow> bool" where
  "valid_stmt (Insert_on_conflict t vals target sets) =
     (\<not> (target \<noteq> unique_column t \<or> inserted_row vals target = Null \<or> target \<in> fst ` set sets))"
| "valid_stmt (Update_where t sets wcol wval) =
     (\<not> (wcol \<noteq> unique_column t \<or> wcol \<in> fst ` set sets))"

fun fresh_row :: "sql_stmt \<Rightarrow> table_name \<Rightarrow> sql_value \<Rightarrow> row option" where
  "fresh_row (Insert_on_conflict t' vals target sets) t k =
     (if valid_stmt (Insert_on_conflict t' vals target sets) \<and> t' = t \<and>
         inserted_row vals target = k
      then Some (inserted_row vals) else None)"
| "fresh_row (Update_where t' sets wcol wval) t k = None"

fun row_patch :: "sql_stmt \<Rightarrow> table_name \<Rightarrow> sql_value \<Rightarrow> (column \<rightharpoonup> sql_value)" where
  "row_patch (Insert_on_conflict t' vals target sets) t k =
     (if valid_stmt (Insert_on_conflict t' vals target sets) \<and> t' = t \<and>
         inserted_row vals target = k
      then map_of (map (\<lambda>(c, e). (c, set_value (inserted_row vals) e)) sets) else Map.empty)"
| "row_patch (Update_where t' sets wcol wval) t k =
     (if valid_stmt (Update_where t' sets wcol wval) \<and> t' = t \<and> wval = k
      then map_of sets else Map.empty)"

definition row_step :: "table_name \<Rightarrow> sql_value \<Rightarrow> row option \<Rightarrow> sql_stmt \<Rightarrow> row option" where
  "row_step t k r sql =
     (case r of None \<Rightarrow> fresh_row sql t k | Some e \<Rightarrow> Some (overwrite (row_patch sql t k) e))"

fun targets_update :: "sql_stmt \<Rightarrow> table_name \<Rightarrow> sql_value \<Rightarrow> bool" where
  "targets_update (Insert_on_conflict t' vals target sets) t k = False"
| "targets_update (Update_where t' sets wcol wval) t k = (t' = t \<and> wval = k)"

text \<open>
  Going through a list of statements from the row \<open>r\<close>: whenever an \<open>UPDATE\<close> on the key
  finds no row, the row \<open>fin\<close> at the end is absent too.
\<close>

fun row_settled ::
  "table_name \<Rightarrow> sql_value \<Rightarrow> row option \<Rightarrow> row option \<Rightarrow> sql_stmt list \<Rightarrow> bool" where
  "row_settled t k r fin [] = True"
| "row_settled t k r fin (sql # stmts) =
     ((targets_update sql t k \<and> r = None \<longrightarrow> fin = None) \<and>
      row_settled t k (row_step t k r sql) fin stmts)"

text \<open>
  An insert is self-consistent when every column its \<open>SET\<close> list assigns receives the
  value the proposed row has in that column.
\<close>

fun self_consistent :: "sql_stmt \<Rightarrow> bool" where
  "self_consistent (Insert_on_conflict t vals target sets) =
     list_all (\<lambda>(c, e). set_value (inserted_row vals) e = inserted_row vals c) sets"
| "self_consistent (Update_where t sets wcol wval) = True"

section \<open>Example data\<close>

text \<open>
  A store without rows that quotes every string and refuses no statement, the account
  and the content card of the spec's example, and operations on them.
\<close>

definition example_conn :: PGconn where
  "example_conn =
     \<lparr>tables = (\<lambda>t. Map.empty), sent = [], quotable = (\<lambda>s. True), refused = (\<lambda>n sql. False)\<rparr>"

definition example_impl :: postgres_content_plugin_impl where
  "example_impl = \<lparr>pg_conn = Some example_conn, start_block = 0\<rparr>"

definition account_1_2_5 :: object_id_type where
  "account_1_2_5 = Object_id_type 1 2 5"

definition account_1_2_6 :: object_id_type where
  "account_1_2_6 = Object_id_type 1 2 6"

definition card_1_7_3 :: object_id_type where
  "card_1_7_3 = Object_id_type 1 7 3"

definition permission_1_9_4 :: object_id_type where
  "permission_1_9_4 = Object_id_type 1 9 4"

definition example_create :: content_card_create_operation where
  "example_create =
     \<lparr>content_card_create_operation.subject_account = account_1_2_5,
      content_card_create_operation.hash = ''abcd'',
      content_card_create_operation.url = ''u1'',
      content_card_create_operation.type = ''t1'',
      content_card_create_operation.description = ''d1'',
      content_card_create_operation.content_key = ''k1'',
      content_card_create_operation.storage_data = ''s1''\<rparr>"

definition example_create2 :: content_card_create_operation where
  "example_create2 =
     \<lparr>content_card_create_operation.subject_account = account_1_2_6,
      content_card_create_operation.hash = ''ef01'',
      content_card_create_operation.url = ''u2'',
      content_card_create_operation.type = ''t2'',
      content_card_create_operation.description = ''d2'',
      content_card_create_operation.content_key = ''k2'',
      content_card_create_operation.storage_data = ''s2''\<rparr>"

definition example_update :: content_card_update_operation where
  "example_update =
     \<lparr>content_card_update_operation.subject_account = account_1_2_6,
      content_card_update_operation.hash = ''ef01'',
      content_card_update_operation.url = ''u2'',
      content_card_update_operation.type = ''t2'',
      content_card_update_operation.description = ''d2'',
      content_card_update_operation.content_key = ''k2'',
      content_card_update_operation.storage_data = ''s2''\<rparr>"

definition example_remove :: content_card_remove_operation where
  "example_remove = \<lparr>content_id = card_1_7_3\<rparr>"

definition example_permission :: permission_create_operation where
  "example_permission =
     \<lparr>permission_create_operation.subject_account = account_1_2_6,
      permission_create_operation.operator_account = account_1_2_5,
      permission_create_operation.permission_type = ''write'',
      permission_create_operation.object_id = None,
      permission_create_operation.content_key = ''k9''\<rparr>"

definition example_permission_remove :: permission_remove_operation where
  "example_permission_remove = \<lparr>permission_id = permission_1_9_4\<rparr>"

definition example_item :: permission_data where
  "example_item =
     \<lparr>permission_data.operator_account = account_1_2_6,
      permission_data.permission_type = ''read'',
      permission_data.object_id = Some card_1_7_3,
      permission_data.content_key = ''k3''\<rparr>"

definition example_item2 :: permission_data where
  "example_item2 =
     \<lparr>permission_data.operator_account = account_1_2_5,
      permission_data.permission_type = ''write'',
      permission_data.object_id = None,
      permission_data.content_key = ''k4''\<rparr>"

definition example_bulk3 :: permission_create_many_operation where
  "example_bulk3 =
     \<lparr>permission_create_many_operation.subject_account = account_1_2_5,
      permissions = [example_item, example_item2, example_item]\<rparr>"

definition example_other :: operation_history_object where
  "example_other =
     \<lparr>op = Other_operation (make_other_tag 7), result = Void_result, trx_in_block = 0\<rparr>"

definition example_block :: signed_block where
  "example_block = \<lparr>block_num = 100, timestamp = 1000, transactions = [''ab'']\<rparr>"

definition example_block_101 :: signed_block where
  "example_block_101 = \<lparr>block_num = 101, timestamp = 1003, transactions = [''cd'']\<rparr>"

text \<open>A create and a remove of the same content card in one block.\<close>

definition create_then_remove :: "operation_history_object option list" where
  "create_then_remove =
     [Some \<lparr>op = Content_card_create example_create,
            result = Object_id_result card_1_7_3, trx_in_block = 0\<rparr>,
      Some \<lparr>op = Content_card_remove example_remove, result = Void_result, trx_in_block = 0\<rparr>]"

text \<open>Two creates of one transaction, neither with a resolved identifier.\<close>

definition two_creates :: "operation_history_object option list" where
  "two_creates =
     [Some \<lparr>op = Content_card_create example_create, result = Void_result, trx_in_block = 0\<rparr>,
      Some \<lparr>op = Content_card_create example_create2, result = Void_result, trx_in_block = 0\<rparr>]"

text \<open>The statements of this block, and the state after projecting it once.\<close>

definition example_stmts :: "sql_stmt list" where
  "example_stmts = block_statements example_impl example_block create_then_remove"

definition example_once :: postgres_content_plugin_impl where
  "example_once = run_stmts example_impl example_stmts"

text \<open>
  A create whose result is a generic result; a create in block 100 followed by an update
  in block 101; the two creates of one transaction. Each state is the run of the
  statements of its block.
\<close>

definition generic_create :: "operation_history_object option list" where
  "generic_create =
     [Some \<lparr>op = Content_card_create example_create,
            result = Generic_result \<lparr>new_objects = [card_1_7_3]\<rparr>, trx_in_block = 0\<rparr>]"

definition generic_create_once :: postgres_content_plugin_impl where
  "generic_create_once =
     run_stmts example_impl (block_statements example_impl example_block generic_create)"

definition create_only :: "operation_history_object option list" where
  "create_only =
     [Some \<lparr>op = Content_card_create example_create,
            result = Object_id_result card_1_7_3, trx_in_block = 0\<rparr>]"

definition update_only :: "operation_history_object option list" where
  "update_only =
     [Some \<lparr>op = Content_card_update example_update,
            result = Object_id_result card_1_7_3, trx_in_block = 0\<rparr>]"

definition created_once :: postgres_content_plugin_impl where
  "created_once = run_stmts example_impl (block_statements example_impl example_block create_only)"

definition updated_once :: postgres_content_plugin_impl where
  "updated_once =
     run_stmts created_once (block_statements created_once example_block_101 update_only)"

definition two_creates_once :: postgres_content_plugin_impl where
  "two_creates_once =
     run_stmts example_impl (block_statements example_impl example_block two_creates)"

text \<open>A store that holds one content card and one permission, both written in block 90.\<close>

definition example_card_row :: row where
  "example_card_row =
     inserted_row
       [(Content_card_id, Text ''1.7.3''), (Subject_account, Text ''1.2.5''),
        (Hash, Text ''abcd''), (Url, Text ''u1''), (Type, Text ''t1''),
        (Description, Text ''d1''), (Content_key, Text ''k1''), (Storage_data, Text ''s1''),
        (Block_num, Number 90), (Block_time, To_timestamp 900), (Trx_id, Text ''aa''),
        (Operation_type, Number 41), (Is_removed, Boolean False)]"

definition example_permission_row :: row where
  "example_permission_row =
     inserted_row
       [(Permission_id, Text ''1.9.4''), (Subject_account, Text ''1.2.5''),
        (Operator_account, Text ''1.2.6''), (Permission_type, Text ''read''),
        (Object_id, Text ''1.7.3''), (Content_key, Text ''k3''),
        (Block_num, Number 90), (Block_time, To_timestamp 900), (Trx_id, Text ''aa''),
        (Operation_type, Number 44), (Is_removed, Boolean False)]"

definition example_tables :: database where
  "example_tables =
     (\<lambda>t. Map.empty)
       (Indexer_content_cards := [Text ''1.7.3'' \<mapsto> example_card_row],
        Indexer_permissions := [Text ''1.9.4'' \<mapsto> example_permission_row])"

definition example_conn_rows :: PGconn where
  "example_conn_rows =
     \<lparr>tables = example_tables, sent = [], quotable = (\<lambda>s. True), refused = (\<lambda>n sql. False)\<rparr>"

definition example_impl_rows :: postgres_content_plugin_impl where
  "example_impl_rows = \<lparr>pg_conn = Some example_conn_rows, start_block = 0\<rparr>"

text \<open>
  An empty store that refuses the first statement it receives and accepts every later
  one, and the block with the single create projected into it once and twice.
\<close>

definition flaky_conn :: PGconn where
  "flaky_conn =
     \<lparr>tables = (\<lambda>t. Map.empty), sent = [], quotable = (\<lambda>s. True),
      refused = (\<lambda>n sql. n = 0)\<rparr>"

definition flaky_impl :: postgres_content_plugin_impl where
  "flaky_impl = \<lparr>pg_conn = Some flaky_conn, start_block = 0\<rparr>"

definition flaky_once :: postgres_content_plugin_impl where
  "flaky_once = run_stmts flaky_impl (block_statements flaky_impl example_block create_only)"

definition flaky_twice :: postgres_content_plugin_impl where
  "flaky_twice = run_stmts flaky_once (block_statements flaky_once example_block create_only)"

section \<open>Auxiliary lemmas\<close>

subsection \<open>Executing one statement\<close>

lemma execute_sql_connected:
  "pg_conn impl = Some conn \<Longrightarrow>
   execute_sql impl sql = (snd (PQexec conn sql), impl\<lparr>pg_conn := Some (fst (PQexec conn sql))\<rparr>)"
  by (simp add: execute_sql_def split: prod.split)

lemma execute_sql_disconnected:
  "pg_conn impl = None \<Longrightarrow> execute_sql impl sql = (False, impl)"
  by (simp add: execute_sql_def)

lemma tables_PQexec:
  "tables (fst (PQexec conn sql)) =
     (if refused conn (length (sent conn)) sql then tables conn
      else case exec_stmt (tables conn) sql of None \<Rightarrow> tables conn | Some db' \<Rightarrow> db')"
  by (simp add: PQexec_def Let_def split: option.split)

lemma sent_PQexec: "sent (fst (PQexec conn sql)) = sent conn @ [sql]"
  by (simp add: PQexec_def Let_def split: option.split)

lemma quotable_PQexec: "quotable (fst (PQexec conn sql)) = quotable conn"
  by (simp add: PQexec_def Let_def split: option.split)

lemma answer_schedule_PQexec: "refused (fst (PQexec conn sql)) = refused conn"
  by (simp add: PQexec_def Let_def split: option.split)

lemma rows_execute_sql:
  "pg_conn impl = Some conn \<Longrightarrow>
   rows (snd (execute_sql impl sql)) =
     (if refused conn (length (sent conn)) sql then tables conn
      else case exec_stmt (tables conn) sql of None \<Rightarrow> tables conn | Some db' \<Rightarrow> db')"
  by (simp add: execute_sql_connected rows_def tables_PQexec fun_eq_iff)

lemma pg_conn_execute_sql:
  "pg_conn impl = Some conn \<Longrightarrow> pg_conn (snd (execute_sql impl sql)) = Some (fst (PQexec conn sql))"
  by (simp add: execute_sql_connected)

lemma statements_sent_execute_sql:
  "pg_conn impl = Some conn \<Longrightarrow>
   statements_sent (snd (execute_sql impl sql)) = statements_sent impl @ [sql]"
  by (simp add: execute_sql_connected statements_sent_def sent_PQexec)

lemma start_block_execute_sql: "start_block (snd (execute_sql impl sql)) = start_block impl"
  by (cases "pg_conn impl") (simp_all add: execute_sql_connected execute_sql_disconnected)

lemma escape_string_execute_sql: "escape_string (snd (execute_sql impl sql)) = escape_string impl"
  by (cases "pg_conn impl")
     (simp_all add: execute_sql_connected execute_sql_disconnected escape_string_def
        PQescapeLiteral_def quotable_PQexec fun_eq_iff)

subsection \<open>Executing a list of statements\<close>

lemma run_stmts_Nil: "run_stmts impl [] = impl"
  by (simp add: run_stmts_def)

lemma run_stmts_single: "run_stmts impl [sql] = snd (execute_sql impl sql)"
  by (simp add: run_stmts_def)

lemma run_stmts_Cons: "run_stmts impl (sql # stmts) = run_stmts (snd (execute_sql impl sql)) stmts"
  by (simp add: run_stmts_def)

lemma run_stmts_append: "run_stmts impl (xs @ ys) = run_stmts (run_stmts impl xs) ys"
  by (simp add: run_stmts_def)

lemma escape_string_run_stmts: "escape_string (run_stmts impl stmts) = escape_string impl"
  unfolding run_stmts_def
  by (induction stmts arbitrary: impl) (simp_all add: escape_string_execute_sql)

lemma start_block_run_stmts: "start_block (run_stmts impl stmts) = start_block impl"
  unfolding run_stmts_def
  by (induction stmts arbitrary: impl) (simp_all add: start_block_execute_sql)

lemma run_stmts_connected:
  "pg_conn impl = Some conn \<Longrightarrow> \<exists>conn'. pg_conn (run_stmts impl stmts) = Some conn'"
proof (induction stmts arbitrary: impl conn)
  case Nil
  then show ?case by (simp add: run_stmts_def)
next
  case (Cons sql stmts)
  show ?case
    using Cons.IH [OF pg_conn_execute_sql [OF Cons.prems]] by (simp add: run_stmts_Cons)
qed

lemma statements_sent_run_stmts:
  "pg_conn impl = Some conn \<Longrightarrow> statements_sent (run_stmts impl stmts) = statements_sent impl @ stmts"
proof (induction stmts arbitrary: impl conn)
  case Nil
  then show ?case by (simp add: run_stmts_def)
next
  case (Cons sql stmts)
  show ?case
    using Cons.IH [OF pg_conn_execute_sql [OF Cons.prems]] Cons.prems
    by (simp add: run_stmts_Cons statements_sent_execute_sql)
qed

subsection \<open>Decimal rendering is injective\<close>

lemma of_digits_snoc: "of_digits (s @ [c]) = 10 * of_digits s + (of_char c - 48)"
  by (simp add: of_digits_def)

lemma of_char_digit_char: "d < 10 \<Longrightarrow> of_char (digit_char d) - 48 = d"
  unfolding digit_char_def of_char_of by simp

lemma of_digits_single: "of_digits [c] = of_char c - 48"
  by (simp add: of_digits_def)

lemma of_digits_to_string: "of_digits (to_string n) = n"
proof (induction n rule: to_string.induct)
  case (1 n)
  show ?case
  proof (cases "n < 10")
    case True
    have "to_string n = [digit_char n]"
      using True by (subst to_string.simps) simp
    then show ?thesis
      using True by (simp add: of_digits_single of_char_digit_char)
  next
    case False
    have ts: "to_string n = to_string (n div 10) @ [digit_char (n mod 10)]"
      using False by (subst to_string.simps) simp
    have "of_digits (to_string (n div 10)) = n div 10"
      using "1.IH" False by simp
    then show ?thesis
      unfolding ts by (simp add: of_digits_snoc of_char_digit_char)
  qed
qed

lemma to_string_inject: "to_string i = to_string j \<Longrightarrow> i = j"
  by (metis of_digits_to_string)

lemma pending_ids_distinct:
  "i \<noteq> j \<Longrightarrow> ''pending-'' @ trx @ ''-'' @ to_string i \<noteq> ''pending-'' @ trx @ ''-'' @ to_string j"
  using to_string_inject [of i j] by auto

subsection \<open>Results and tags\<close>

lemma other_tag_which_unhandled: "other_tag_which t \<notin> {41, 42, 43, 44, 45, 64}"
  using Rep_other_tag [of t] by (simp add: other_tag_which.rep_eq)

lemma get_object_id_from_result_value:
  "get_object_id_from_result r =
     Some (case r of Object_id_result x \<Rightarrow> object_id_to_string x | _ \<Rightarrow> [])"
  by (cases r) (simp_all add: get_object_id_from_result_def)

lemma new_objects_from_result_value:
  "new_objects_from_result r = Some (case r of Generic_result g \<Rightarrow> new_objects g | _ \<Rightarrow> [])"
  by (cases r) (simp_all add: new_objects_from_result_def)

lemma on_block_operation_unhandled:
  assumes "operation_which (operation_history_object.op o_op) \<notin> {41, 42, 43, 44, 45, 64}"
  shows "on_block_operation impl b o_op = Some impl"
  using assms by (simp add: on_block_operation_def get_object_id_from_result_value Let_def)

subsection \<open>The bulk loop as a list of statements\<close>

lemma permission_create_many_sql_cong:
  "escape_string impl' = escape_string impl \<Longrightarrow>
   permission_create_many_sql impl' s p pid bn bt trx = permission_create_many_sql impl s p pid bn bt trx"
  by (simp add: permission_create_many_sql_def)

lemma permission_create_many_loop_run:
  "permission_create_many_loop impl subject bnum btime trx obj_it i items =
     run_stmts impl
       (map (\<lambda>k. permission_create_many_sql impl subject (items ! k)
                   (if k < length obj_it then object_id_to_string (obj_it ! k)
                    else ''pending-'' @ trx @ ''-'' @ to_string (i + k))
                   bnum btime trx)
          [0..<length items])"
proof (induction items arbitrary: impl obj_it i)
  case Nil
  show ?case by (simp add: run_stmts_def)
next
  case (Cons perm items)
  define pid where "pid = (\<lambda>it n k. if k < length it then object_id_to_string (it ! k)
                                     else ''pending-'' @ trx @ ''-'' @ to_string (n + (k :: nat)))"
  define rest where "rest = (case obj_it of x # xs \<Rightarrow> xs | [] \<Rightarrow> [])"
  define sql where "sql = permission_create_many_sql impl subject perm (pid obj_it i 0) bnum btime trx"
  define impl' where "impl' = snd (execute_sql impl sql)"
  have step: "permission_create_many_loop impl subject bnum btime trx obj_it i (perm # items) =
        permission_create_many_loop impl' subject bnum btime trx rest (Suc i) items"
    by (cases obj_it) (simp_all add: impl'_def sql_def rest_def pid_def)
  have same: "permission_create_many_sql impl' subject p q bnum btime trx =
        permission_create_many_sql impl subject p q bnum btime trx" for p q
    unfolding impl'_def
    by (rule permission_create_many_sql_cong) (rule escape_string_execute_sql)
  have tail: "pid rest (Suc i) k = pid obj_it i (Suc k)" for k
    by (cases obj_it) (simp_all add: pid_def rest_def)
  have idx: "[0..<length (perm # items)] = 0 # map Suc [0..<length items]"
    by (simp add: upt_conv_Cons map_Suc_upt del: upt_Suc)
  have "permission_create_many_loop impl subject bnum btime trx obj_it i (perm # items) =
        run_stmts impl'
          (map (\<lambda>k. permission_create_many_sql impl' subject (items ! k) (pid rest (Suc i) k)
                      bnum btime trx) [0..<length items])"
    unfolding step pid_def by (rule Cons.IH)
  also have "\<dots> = run_stmts impl'
          (map (\<lambda>k. permission_create_many_sql impl subject ((perm # items) ! Suc k)
                      (pid obj_it i (Suc k)) bnum btime trx) [0..<length items])"
    by (simp only: same tail nth_Cons_Suc)
  also have "\<dots> = run_stmts impl
          (map (\<lambda>k. permission_create_many_sql impl subject ((perm # items) ! k)
                      (pid obj_it i k) bnum btime trx) [0..<length (perm # items)])"
    unfolding idx by (simp add: run_stmts_Cons impl'_def sql_def o_def)
  finally show ?case
    unfolding pid_def .
qed

lemma handle_permission_create_many_run:
  fixes op :: permission_create_many_operation and block_num :: "32 word"
    and trx_id :: string and new_objects :: "object_id_type flat_set"
  shows "handle_permission_create_many impl op block_num block_time trx_id new_objects =
     run_stmts impl (permission_create_many_statements impl op block_num block_time trx_id new_objects)"
  by (simp add: handle_permission_create_many_def permission_create_many_loop_run
      permission_create_many_statements_def bulk_permission_id_def Let_def cong: if_cong)

subsection \<open>The block as a list of statements\<close>

lemma on_block_operation_run:
  "on_block_operation impl b o_op = Some (run_stmts impl (operation_statements impl b o_op))"
proof (cases "operation_history_object.op o_op")
  case (Other_operation t)
  then show ?thesis
    using other_tag_which_unhandled [of t]
    by (simp add: on_block_operation_def operation_statements_def get_object_id_from_result_value
        Let_def run_stmts_Nil)
next
  case (Permission_create_many x)
  then show ?thesis
    by (simp add: on_block_operation_def operation_statements_def get_object_id_from_result_value
        new_objects_from_result_value Let_def handle_permission_create_many_run)
qed (simp_all add: on_block_operation_def operation_statements_def get_object_id_from_result_value
      created_object_id_of_def Let_def run_stmts_single handle_content_card_create_def
      handle_content_card_update_def handle_content_card_remove_def handle_permission_create_def
      handle_permission_remove_def)

lemma operation_statements_cong:
  assumes "escape_string impl' = escape_string impl"
  shows "operation_statements impl' b o_op = operation_statements impl b o_op"
  using assms
  by (simp add: operation_statements_def content_card_create_sql_def content_card_update_sql_def
      content_card_remove_sql_def permission_create_sql_def permission_remove_sql_def
      permission_create_many_statements_def permission_create_many_sql_def Let_def
      split: operation.split)

lemma block_statements_cong:
  assumes "escape_string impl' = escape_string impl"
  shows "block_statements impl' b hist = block_statements impl b hist"
  by (simp add: block_statements_def operation_statements_cong [OF assms] cong: option.case_cong)

lemma on_block_loop_run:
  "on_block_loop impl b hist = Some (run_stmts impl (block_statements impl b hist))"
proof (induction hist arbitrary: impl)
  case Nil
  show ?case by (simp add: block_statements_def run_stmts_Nil)
next
  case (Cons entry hist)
  show ?case
  proof (cases entry)
    case None
    then show ?thesis by (simp add: Cons.IH block_statements_def)
  next
    case (Some o_op)
    let ?impl' = "run_stmts impl (operation_statements impl b o_op)"
    have "block_statements ?impl' b hist = block_statements impl b hist"
      by (rule block_statements_cong) (rule escape_string_run_stmts)
    then show ?thesis
      using Some
      by (simp add: on_block_operation_run Cons.IH run_stmts_append [symmetric]
          block_statements_def)
  qed
qed

lemma on_block_run:
  "on_block impl b hist =
     Some (if pg_conn impl = None \<or> signed_block.block_num b < start_block impl then impl
           else run_stmts impl (block_statements impl b hist))"
  by (simp add: on_block_def on_block_loop_run split: option.split)

lemma self_consistent_operation_statements:
  "\<forall>sql \<in> set (operation_statements impl b o_op). self_consistent sql"
  by (simp add: operation_statements_def content_card_create_sql_def content_card_update_sql_def
      content_card_remove_sql_def permission_create_sql_def permission_remove_sql_def
      permission_create_many_statements_def permission_create_many_sql_def Let_def
      inserted_row_def split: operation.split)

lemma self_consistent_block_statements:
  "\<forall>sql \<in> set (block_statements impl b hist). self_consistent sql"
  using self_consistent_operation_statements
  by (auto simp: block_statements_def split: option.splits)

subsection \<open>Rows as overwritten columns\<close>

lemma assign_overwrite: "assign sets r = overwrite (map_of sets) r"
  by (simp add: assign_def overwrite_def)

lemma overwrite_empty: "overwrite Map.empty r = r"
  by (simp add: overwrite_def)

lemma overwrite_overwrite: "overwrite m (overwrite p r) = overwrite (p ++ m) r"
  by (simp add: overwrite_def map_add_def fun_eq_iff split: option.split)

lemma overwrite_idem: "overwrite m (overwrite m r) = overwrite m r"
  by (simp add: overwrite_def fun_eq_iff split: option.split)

lemma overwrite_absorb:
  assumes "overwrite p n = n"
  shows "overwrite m (overwrite p (overwrite m n)) = overwrite m n"
proof (rule ext)
  fix c
  have pc: "p c = Some v \<Longrightarrow> v = n c" for v
    using fun_cong [OF assms, of c] by (simp add: overwrite_def)
  show "overwrite m (overwrite p (overwrite m n)) c = overwrite m n c"
    using pc by (cases "m c"; cases "p c") (simp_all add: overwrite_def)
qed

lemma tables_PQexec_row:
  "tables (fst (PQexec conn sql)) t k =
     (if refused conn (length (sent conn)) sql then tables conn t k
      else row_step t k (tables conn t k) sql)"
proof (cases sql)
  case (Insert_on_conflict t' vals target sets)
  then show ?thesis
    by (auto simp: tables_PQexec row_step_def Let_def assign_overwrite overwrite_empty
        split: option.split)
next
  case (Update_where t' sets wcol wval)
  then show ?thesis
    by (auto simp: tables_PQexec row_step_def Let_def assign_overwrite overwrite_empty
        split: option.split)
qed

lemma rows_execute_sql_row:
  "pg_conn impl = Some conn \<Longrightarrow>
   rows (snd (execute_sql impl sql)) t k =
     (if refused conn (length (sent conn)) sql then rows impl t k
      else row_step t k (rows impl t k) sql)"
  by (simp add: execute_sql_connected rows_def tables_PQexec_row)

lemma conn_execute_sql:
  "pg_conn impl = Some conn \<Longrightarrow>
   \<exists>conn'. pg_conn (snd (execute_sql impl sql)) = Some conn' \<and> refused conn' = refused conn \<and>
           sent conn' = sent conn @ [sql]"
  by (simp add: execute_sql_connected answer_schedule_PQexec sent_PQexec)

lemma conn_run_stmts:
  "pg_conn impl = Some conn \<Longrightarrow>
   \<exists>conn'. pg_conn (run_stmts impl stmts) = Some conn' \<and> refused conn' = refused conn \<and>
           sent conn' = sent conn @ stmts"
proof (induction stmts arbitrary: impl conn)
  case Nil
  then show ?case by (simp add: run_stmts_def)
next
  case (Cons sql stmts)
  obtain conn' where c': "pg_conn (snd (execute_sql impl sql)) = Some conn'"
    and r': "refused conn' = refused conn" and s': "sent conn' = sent conn @ [sql]"
    using conn_execute_sql [OF Cons.prems] by blast
  show ?case
    using Cons.IH [OF c'] r' s' by (simp add: run_stmts_Cons)
qed

lemma rows_run_stmts_accepted:
  "pg_conn impl = Some conn \<Longrightarrow>
   rows (run_stmts impl stmts) t k =
     foldl (row_step t k) (rows impl t k) (accepted (refused conn) (length (sent conn)) stmts)"
proof (induction stmts arbitrary: impl conn)
  case Nil
  show ?case by (simp add: run_stmts_def)
next
  case (Cons sql stmts)
  obtain conn' where c': "pg_conn (snd (execute_sql impl sql)) = Some conn'"
    and r': "refused conn' = refused conn" and s': "sent conn' = sent conn @ [sql]"
    using conn_execute_sql [OF Cons.prems] by blast
  show ?case
    using Cons.IH [OF c'] r' s'
    by (simp add: run_stmts_Cons rows_execute_sql_row [OF Cons.prems])
qed

subsection \<open>Accepted statements\<close>

lemma set_accepted: "set (accepted R n stmts) \<subseteq> set stmts"
  by (induction stmts arbitrary: n) auto

lemma self_consistent_accepted:
  "\<forall>sql \<in> set stmts. self_consistent sql \<Longrightarrow> \<forall>sql \<in> set (accepted R n stmts). self_consistent sql"
  using set_accepted [of R n stmts] by blast

lemma no_insert_after_update_accepted:
  "no_insert_after_update stmts \<Longrightarrow> no_insert_after_update (accepted R n stmts)"
proof (induction stmts arbitrary: n)
  case Nil
  show ?case by simp
next
  case (Cons sql stmts)
  show ?case
  proof (cases sql)
    case (Insert_on_conflict t vals target sets)
    then show ?thesis using Cons by simp
  next
    case (Update_where t sets wcol wval)
    then have none: "\<forall>s \<in> set stmts. \<not> inserts_key s t wval"
      and rest: "no_insert_after_update stmts"
      using Cons.prems by (simp_all add: list_all_iff)
    have "\<forall>s \<in> set (accepted R (Suc n) stmts). \<not> inserts_key s t wval"
      using none set_accepted [of R "Suc n" stmts] by blast
    then show ?thesis
      using Update_where Cons.IH [OF rest] by (simp add: list_all_iff)
  qed
qed

lemma accepted_alike:
  assumes "\<forall>i \<in> {0..<length stmts}. R (m + i) (stmts ! i) = R (n + i) (stmts ! i)"
  shows "accepted R m stmts = accepted R n stmts"
  using assms
proof (induction stmts arbitrary: m n)
  case Nil
  show ?case by simp
next
  case (Cons sql stmts)
  have head: "R m sql = R n sql"
    using Cons.prems by (force dest: bspec [where x = 0])
  have "\<forall>i \<in> {0..<length stmts}. R (Suc m + i) (stmts ! i) = R (Suc n + i) (stmts ! i)"
  proof
    fix i
    assume "i \<in> {0..<length stmts}"
    then have "Suc i \<in> {0..<length (sql # stmts)}" by simp
    from Cons.prems [rule_format, OF this] show "R (Suc m + i) (stmts ! i) = R (Suc n + i) (stmts ! i)"
      by simp
  qed
  from Cons.IH [OF this] head show ?case by simp
qed

subsection \<open>One row under a list of statements\<close>

lemma row_run_Some:
  "\<exists>m. \<forall>e. foldl (row_step t k) (Some e) stmts = Some (overwrite m e)"
proof (induction stmts)
  case Nil
  have "\<forall>e. foldl (row_step t k) (Some e) [] = Some (overwrite Map.empty e)"
    by (simp add: overwrite_empty)
  then show ?case by blast
next
  case (Cons sql stmts)
  then obtain m where m: "\<And>e. foldl (row_step t k) (Some e) stmts = Some (overwrite m e)"
    by blast
  have "\<forall>e. foldl (row_step t k) (Some e) (sql # stmts) =
            Some (overwrite (row_patch sql t k ++ m) e)"
    by (simp add: row_step_def m overwrite_overwrite)
  then show ?case by blast
qed

lemma fresh_row_consistent:
  assumes "self_consistent sql" and "fresh_row sql t k = Some n"
  shows "overwrite (row_patch sql t k) n = n"
proof (cases sql)
  case (Insert_on_conflict t' vals target sets)
  with assms have n: "n = inserted_row vals"
    and all: "list_all (\<lambda>(c, e). set_value (inserted_row vals) e = inserted_row vals c) sets"
    and patch: "row_patch sql t k =
                  map_of (map (\<lambda>(c, e). (c, set_value (inserted_row vals) e)) sets)"
    by (auto split: if_splits)
  have "map_of (map (\<lambda>(c, e). (c, set_value (inserted_row vals) e)) sets) c = Some v \<Longrightarrow>
        v = inserted_row vals c" for c v
    using all by (induction sets) (auto split: if_splits)
  then show ?thesis
    unfolding patch n by (auto simp: overwrite_def fun_eq_iff split: option.split)
next
  case (Update_where t' sets wcol wval)
  with assms show ?thesis by simp
qed

lemma row_patch_empty:
  assumes "fresh_row sql t k = None" and "\<not> targets_update sql t k"
  shows "row_patch sql t k = Map.empty"
  using assms by (cases sql) (auto split: if_splits)

lemma row_run_idempotent:
  assumes "\<forall>sql \<in> set stmts. self_consistent sql"
    and "row_settled t k r (foldl (row_step t k) r stmts) stmts"
  shows "foldl (row_step t k) (foldl (row_step t k) r stmts) stmts =
         foldl (row_step t k) r stmts"
  using assms
proof (induction stmts arbitrary: r)
  case Nil
  show ?case by simp
next
  case (Cons sql stmts)
  let ?run = "foldl (row_step t k)"
  let ?p = "row_patch sql t k"
  obtain m where m: "\<And>e. ?run (Some e) stmts = Some (overwrite m e)"
    using row_run_Some [of t k stmts] by blast
  have consistent: "self_consistent sql" and rest: "\<forall>s \<in> set stmts. self_consistent s"
    using Cons.prems(1) by simp_all
  have settled_here: "targets_update sql t k \<and> r = None \<longrightarrow> ?run r (sql # stmts) = None"
    and settled_rest: "row_settled t k (row_step t k r sql) (?run (row_step t k r sql) stmts) stmts"
    using Cons.prems(2) by simp_all
  show ?case
  proof (cases r)
    case (Some e)
    have both: "?run (Some x) (sql # stmts) = Some (overwrite (?p ++ m) x)" for x
      by (simp add: row_step_def m overwrite_overwrite)
    show ?thesis
      unfolding Some both by (simp add: overwrite_idem)
  next
    case None
    show ?thesis
    proof (cases "fresh_row sql t k")
      case (Some n)
      have pn: "overwrite ?p n = n"
        using consistent Some by (rule fresh_row_consistent)
      have once: "?run r (sql # stmts) = Some (overwrite m n)"
        using None Some by (simp add: row_step_def m)
      have "?run (Some (overwrite m n)) (sql # stmts) =
            Some (overwrite m (overwrite ?p (overwrite m n)))"
        by (simp add: row_step_def m)
      then show ?thesis
        unfolding once by (simp add: overwrite_absorb [OF pn])
    next
      case fresh: None
      have step: "row_step t k r sql = None"
        using None fresh by (simp add: row_step_def)
      have step_None: "row_step t k None sql = None"
        using fresh by (simp add: row_step_def)
      have once: "?run r (sql # stmts) = ?run None stmts"
        using step by simp
      have ih: "?run (?run None stmts) stmts = ?run None stmts"
        using Cons.IH [OF rest, of None] settled_rest step by simp
      show ?thesis
      proof (cases "?run None stmts")
        case None
        show ?thesis
          unfolding once None by (simp add: step_None None)
      next
        case (Some f)
        have "\<not> targets_update sql t k"
          using settled_here \<open>r = None\<close> once Some by auto
        then have "?p = Map.empty"
          using fresh by (simp add: row_patch_empty)
        then have same: "row_step t k (Some f) sql = Some f"
          by (simp add: row_step_def overwrite_empty)
        have "?run (Some f) stmts = Some f"
          using ih Some by simp
        then show ?thesis
          unfolding once Some by (simp add: same)
      qed
    qed
  qed
qed

lemma row_run_None:
  assumes "\<forall>sql \<in> set stmts. \<not> inserts_key sql t k"
  shows "foldl (row_step t k) None stmts = None"
  using assms
proof (induction stmts)
  case Nil
  show ?case by simp
next
  case (Cons sql stmts)
  have "fresh_row sql t k = None"
    using Cons.prems by (cases sql) auto
  then show ?case
    using Cons by (simp add: row_step_def)
qed

lemma no_insert_after_update_settled:
  assumes "no_insert_after_update stmts"
  shows "row_settled t k r (foldl (row_step t k) r stmts) stmts"
  using assms
proof (induction stmts arbitrary: r)
  case Nil
  show ?case by simp
next
  case (Cons sql stmts)
  show ?case
  proof (cases sql)
    case (Insert_on_conflict t' vals target sets)
    then show ?thesis
      using Cons.IH [of "row_step t k r sql"] Cons.prems by simp
  next
    case (Update_where t' sets wcol wval)
    then have none: "\<forall>s \<in> set stmts. \<not> inserts_key s t' wval"
      and rest: "no_insert_after_update stmts"
      using Cons.prems by (simp_all add: list_all_iff)
    have "foldl (row_step t k) r (sql # stmts) = None" if "t' = t" "wval = k" "r = None"
      using that Update_where row_run_None [of stmts t k] none by (simp add: row_step_def)
    then show ?thesis
      using Update_where Cons.IH [OF rest, of "row_step t k r sql"] by auto
  qed
qed

subsection \<open>Evaluating the examples\<close>

lemma example_ids_rendered:
  "object_id_to_string account_1_2_5 = ''1.2.5''"
  "object_id_to_string account_1_2_6 = ''1.2.6''"
  "object_id_to_string card_1_7_3 = ''1.7.3''"
  "object_id_to_string permission_1_9_4 = ''1.9.4''"
  by code_simp+

lemma to_string_small:
  "to_string 0 = ''0''" "to_string (Suc 0) = ''1''" "to_string 1 = ''1''" "to_string 2 = ''2''"
  "to_string (Suc (Suc 0)) = ''2''"
  by code_simp+

lemmas plugin_defs =
  on_block_def on_block_operation_def get_object_id_from_result_def new_objects_from_result_def
  handle_content_card_create_def handle_content_card_update_def handle_content_card_remove_def
  handle_permission_create_def handle_permission_remove_def handle_permission_create_many_def
  content_card_create_sql_def content_card_update_sql_def content_card_remove_sql_def
  permission_create_sql_def permission_remove_sql_def permission_create_many_sql_def
  execute_sql_def escape_string_def PQexec_def PQescapeLiteral_def
  inserted_row_def assign_def column_default_def sec_since_epoch_def
  rows_def statements_sent_def Let_def

lemmas example_defs =
  example_conn_def example_impl_def example_create_def example_create2_def example_update_def
  example_remove_def example_permission_def example_permission_remove_def example_item_def
  example_item2_def example_bulk3_def example_other_def two_creates_def example_block_def example_block_101_def create_then_remove_def
  example_card_row_def example_permission_row_def example_tables_def
  example_conn_rows_def example_impl_rows_def

lemma example_impl_escape: "escape_string example_impl s = s"
  by (simp add: escape_string_def PQescapeLiteral_def example_impl_def example_conn_def)

lemma example_impl_rows_escape: "escape_string example_impl_rows s = s"
  by (simp add: escape_string_def PQescapeLiteral_def example_impl_rows_def example_conn_rows_def)

lemma example_stmts_value:
  "example_stmts =
     [content_card_create_sql example_impl example_create 100 1000 ''ab'' ''1.7.3'',
      content_card_remove_sql example_impl example_remove 100 1000 ''ab'']"
  by (simp add: example_stmts_def block_statements_def operation_statements_def
      created_object_id_of_def create_then_remove_def example_block_def example_ids_rendered)

lemma on_block_from_example:
  "on_block (run_stmts example_impl stmts) example_block hist =
     Some (run_stmts (run_stmts example_impl stmts)
             (block_statements (run_stmts example_impl stmts) example_block hist))"
  "on_block (run_stmts example_impl stmts) example_block_101 hist =
     Some (run_stmts (run_stmts example_impl stmts)
             (block_statements (run_stmts example_impl stmts) example_block_101 hist))"
  using run_stmts_connected [of example_impl example_conn stmts]
  by (auto simp: on_block_run start_block_run_stmts example_impl_def example_block_def
      example_block_101_def)

lemma on_block_example:
  "on_block example_impl example_block hist =
     Some (run_stmts example_impl (block_statements example_impl example_block hist))"
  using on_block_from_example(1) [of "[]" hist] by (simp add: run_stmts_Nil)

lemma on_block_from_flaky:
  "on_block (run_stmts flaky_impl stmts) example_block hist =
     Some (run_stmts (run_stmts flaky_impl stmts)
             (block_statements (run_stmts flaky_impl stmts) example_block hist))"
  using run_stmts_connected [of flaky_impl flaky_conn stmts]
  by (auto simp: on_block_run start_block_run_stmts flaky_impl_def example_block_def)

lemma on_block_flaky:
  "on_block flaky_impl example_block hist =
     Some (run_stmts flaky_impl (block_statements flaky_impl example_block hist))"
  using on_block_from_flaky [of "[]" hist] by (simp add: run_stmts_Nil)

lemmas run_defs =
  run_stmts_def block_statements_def operation_statements_def created_object_id_of_def
  permission_create_many_statements_def bulk_permission_id_def row_columns_def

subsection \<open>An insert that meets an existing row\<close>

lemma rows_insert_conflict:
  assumes conn: "pg_conn impl = Some conn"
    and accepted: "\<not> refused conn (length (sent conn)) (Insert_on_conflict t vals target sets)"
    and valid: "target = unique_column t" "target \<notin> fst ` set sets"
    and key: "inserted_row vals target = key" "key \<noteq> Null"
    and existing: "tables conn t key = Some existing"
  shows "rows (snd (execute_sql impl (Insert_on_conflict t vals target sets))) =
         (tables conn)(t := (tables conn t)(key \<mapsto>
            assign (map (\<lambda>(c, e). (c, set_value (inserted_row vals) e)) sets) existing))"
  using assms by (simp add: rows_execute_sql Let_def)

section \<open>Claims about the block projector\<close>

subsection \<open>Replaying a block\<close>

text \<open>
  Claim C1, as amended. Let a block be projected once and let \<open>stmts\<close> be the statements
  this first pass handed to the connection. Suppose that no statement of the pass
  inserts under an identifier that an earlier remove of the pass addressed
  (\<open>no_insert_after_update\<close>: the chain assigns an identifier once, so no operation of a
  finalized block creates or updates an entity that an earlier operation of the block
  removed), and that the store answers each statement of the second pass as it answered
  the same statement in the first (\<open>answers_alike\<close>; so in particular when it refuses
  none). Then projecting the same block a second time does not fail and leaves both
  tables, and so the row of every content-card id and of every permission id, as they
  were after the first pass. The start-block threshold and a missing connection need no
  hypothesis: a block that is not processed changes nothing in either pass.
\<close>

theorem replay_idempotent_when_answers_alike:
  assumes first: "on_block impl b hist = Some impl1"
    and sent: "statements_sent impl1 = statements_sent impl @ stmts"
    and chain: "no_insert_after_update stmts"
    and alike: "answers_alike impl stmts"
  shows "\<exists>impl2. on_block impl1 b hist = Some impl2 \<and>
           rows impl2 Indexer_content_cards = rows impl1 Indexer_content_cards \<and>
           rows impl2 Indexer_permissions = rows impl1 Indexer_permissions"
proof (cases "pg_conn impl = None \<or> signed_block.block_num b < start_block impl")
  case True
  then have "impl1 = impl"
    using first by (simp add: on_block_run)
  then show ?thesis
    using True by (simp add: on_block_run)
next
  case False
  then obtain conn where conn: "pg_conn impl = Some conn"
    by auto
  let ?B = "block_statements impl b hist"
  let ?n = "length (sent conn)"
  let ?A = "accepted (refused conn) ?n ?B"
  have impl1: "impl1 = run_stmts impl ?B"
    using first False by (simp add: on_block_run)
  obtain conn1 where conn1: "pg_conn impl1 = Some conn1"
    and refused1: "refused conn1 = refused conn" and sent1: "sent conn1 = sent conn @ ?B"
    using conn_run_stmts [OF conn, of ?B] impl1 by blast
  have stmts: "stmts = ?B"
    using sent statements_sent_run_stmts [OF conn, of ?B] impl1 by simp
  have B1: "block_statements impl1 b hist = ?B"
    unfolding impl1 by (rule block_statements_cong) (rule escape_string_run_stmts)
  have start1: "start_block impl1 = start_block impl"
    unfolding impl1 by (rule start_block_run_stmts)
  have second: "on_block impl1 b hist = Some (run_stmts impl1 ?B)"
    using False conn1 start1 B1 by (simp add: on_block_run)
  have "\<forall>i \<in> {0..<length ?B}.
          refused conn (?n + length ?B + i) (?B ! i) = refused conn (?n + i) (?B ! i)"
    using alike conn stmts by (simp add: answers_alike_def)
  then have replay: "accepted (refused conn) (?n + length ?B) ?B = ?A"
    by (rule accepted_alike)
  have consistent: "\<forall>sql \<in> set ?A. self_consistent sql"
    using self_consistent_block_statements by (rule self_consistent_accepted)
  have ordered: "no_insert_after_update ?A"
    using chain stmts by (simp add: no_insert_after_update_accepted)
  have same: "rows (run_stmts impl1 ?B) t k = rows impl1 t k" for t k
  proof -
    let ?run = "foldl (row_step t k)"
    have once: "rows impl1 t k = ?run (rows impl t k) ?A"
      unfolding impl1 by (rule rows_run_stmts_accepted [OF conn])
    have twice: "rows (run_stmts impl1 ?B) t k = ?run (rows impl1 t k) ?A"
      using rows_run_stmts_accepted [OF conn1, of ?B t k] refused1 sent1 replay by simp
    have "row_settled t k (rows impl t k) (?run (rows impl t k) ?A) ?A"
      using ordered by (rule no_insert_after_update_settled)
    with consistent have "?run (?run (rows impl t k) ?A) ?A = ?run (rows impl t k) ?A"
      by (rule row_run_idempotent)
    then show ?thesis
      using once twice by simp
  qed
  show ?thesis
    using second same by (simp add: fun_eq_iff)
qed

text \<open>
  The theorem at the block that creates card \<open>1.7.3\<close> and removes it, projected into an
  empty store that refuses nothing.
\<close>

theorem replay_idempotent_witness:
  "on_block example_impl example_block create_then_remove = Some example_once \<and>
   statements_sent example_once = statements_sent example_impl @ example_stmts \<and>
   no_insert_after_update example_stmts \<and>
   answers_alike example_impl example_stmts \<and>
   (\<exists>impl2. on_block example_once example_block create_then_remove = Some impl2 \<and>
      rows impl2 Indexer_content_cards = rows example_once Indexer_content_cards \<and>
      rows impl2 Indexer_permissions = rows example_once Indexer_permissions)"
proof -
  have conn: "pg_conn example_impl = Some example_conn"
    by (simp add: example_impl_def)
  have first: "on_block example_impl example_block create_then_remove = Some example_once"
    by (simp add: on_block_run example_once_def example_stmts_def example_impl_def
        example_block_def)
  have sent: "statements_sent example_once = statements_sent example_impl @ example_stmts"
    unfolding example_once_def by (rule statements_sent_run_stmts [OF conn])
  have chain: "no_insert_after_update example_stmts"
    unfolding example_stmts_value
    by (simp add: content_card_create_sql_def content_card_remove_sql_def)
  have alike: "answers_alike example_impl example_stmts"
    by (simp add: answers_alike_def example_impl_def example_conn_def)
  from replay_idempotent_when_answers_alike [OF first sent chain alike] first sent chain alike
  show ?thesis by blast
qed

text \<open>
  Without the proviso on the store the claim fails. \<open>execute_sql\<close> reports a refused
  statement and returns; no handler looks at the answer and nothing sends the statement
  again. At a store that refuses the first statement it receives and accepts the later
  ones, the block whose only operation creates card \<open>1.7.3\<close> leaves no row for the
  card after one pass and the created row after two.
\<close>

theorem replay_after_failed_write_counterexample:
  "no_insert_after_update (block_statements flaky_impl example_block create_only) \<and>
   on_block flaky_impl example_block create_only = Some flaky_once \<and>
   on_block flaky_once example_block create_only = Some flaky_twice \<and>
   row_columns flaky_once Indexer_content_cards (Text ''1.7.3'') [Hash, Block_num, Is_removed] =
     None \<and>
   row_columns flaky_twice Indexer_content_cards (Text ''1.7.3'') [Hash, Block_num, Is_removed] =
     Some [Text ''abcd'', Number 100, Boolean False]"
proof (intro conjI)
  show "no_insert_after_update (block_statements flaky_impl example_block create_only)"
    by (simp add: block_statements_def operation_statements_def create_only_def
        content_card_create_sql_def Let_def)
  show "on_block flaky_impl example_block create_only = Some flaky_once"
    unfolding flaky_once_def by (rule on_block_flaky)
  show "on_block flaky_once example_block create_only = Some flaky_twice"
    unfolding flaky_twice_def flaky_once_def by (rule on_block_from_flaky)
  show "row_columns flaky_once Indexer_content_cards (Text ''1.7.3'') [Hash, Block_num, Is_removed] =
     None"
    by (simp add: flaky_once_def flaky_impl_def flaky_conn_def create_only_def run_defs
        plugin_defs example_defs example_ids_rendered)
  show "row_columns flaky_twice Indexer_content_cards (Text ''1.7.3'') [Hash, Block_num, Is_removed] =
     Some [Text ''abcd'', Number 100, Boolean False]"
    by (simp add: flaky_twice_def flaky_once_def flaky_impl_def flaky_conn_def create_only_def
        run_defs plugin_defs example_defs example_ids_rendered)
qed

subsection \<open>Resolving identifiers\<close>

text \<open>
  Claim C2, as amended. \<open>get_object_id_from_result\<close> never fails; it returns the single
  identifier for the object-identifier variant and the empty string for every other
  variant, the generic variant included. The identifier set of the generic variant is
  read only in the branch of \<open>on_block\<close> for the bulk permission create, which never
  fails either and takes the embedded set in its own order for the generic variant and
  the empty set for every other variant, the object-identifier variant included.
\<close>

theorem identifier_resolution_by_variant:
  "get_object_id_from_result r =
     Some (case r of Object_id_result x \<Rightarrow> object_id_to_string x | _ \<Rightarrow> []) \<and>
   new_objects_from_result r =
     Some (case r of Generic_result g \<Rightarrow> new_objects g | _ \<Rightarrow> [])"
  by (cases r) (simp_all add: get_object_id_from_result_def new_objects_from_result_def)

text \<open>
  The claim as stated fails on both sides: a generic result carrying \<open>1.7.3\<close> resolves
  to no identifier for a single create, whose row is then keyed by the placeholder;
  and an object-identifier result gives the bulk handler no identifier.
\<close>

theorem generic_result_not_resolved_counterexample:
  "get_object_id_from_result (Generic_result \<lparr>new_objects = [card_1_7_3]\<rparr>) = Some [] \<and>
   new_objects_from_result (Object_id_result permission_1_9_4) = Some [] \<and>
   on_block example_impl example_block generic_create = Some generic_create_once \<and>
   map stmt_key (statements_sent generic_create_once) = [Text ''pending-ab'']"
proof (intro conjI)
  show "get_object_id_from_result (Generic_result \<lparr>new_objects = [card_1_7_3]\<rparr>) = Some []"
    by (simp add: get_object_id_from_result_def)
  show "new_objects_from_result (Object_id_result permission_1_9_4) = Some []"
    by (simp add: new_objects_from_result_def)
  show "on_block example_impl example_block generic_create = Some generic_create_once"
    unfolding generic_create_once_def by (rule on_block_example)
  show "map stmt_key (statements_sent generic_create_once) = [Text ''pending-ab'']"
    by (simp add: generic_create_once_def generic_create_def run_defs plugin_defs example_defs)
qed

subsection \<open>A content-card update that meets an existing row\<close>

text \<open>
  Claim C3, as amended. When the insert of a content-card update is accepted by the
  store and conflicts with an existing row, the row keeps its place and exactly these
  columns are overwritten: hash, url, type, description, content key, storage data,
  block number, block time and operation kind (42). Every other column of the row, the
  transaction id and the soft-delete flag among them, keeps its value, and no other row
  of either table changes.
\<close>

theorem content_card_update_conflict:
  fixes op :: content_card_update_operation and block_num :: "32 word"
    and trx_id :: string and object_id :: string
  assumes conn: "pg_conn impl = Some conn"
    and accepted: "\<not> refused conn (length (sent conn)) (content_card_update_sql impl op block_num block_time trx_id object_id)"
    and key: "key = Text (escape_string impl (if object_id = [] then ''pending-'' @ trx_id else object_id))"
    and existing: "tables conn Indexer_content_cards key = Some existing"
  shows "rows (handle_content_card_update impl op block_num block_time trx_id object_id) =
         (tables conn)(Indexer_content_cards := (tables conn Indexer_content_cards)(key \<mapsto>
            existing
              (Hash := Text (escape_string impl (content_card_update_operation.hash op)),
               Url := Text (escape_string impl (content_card_update_operation.url op)),
               Type := Text (escape_string impl (content_card_update_operation.type op)),
               Description :=
                 Text (escape_string impl (content_card_update_operation.description op)),
               Content_key :=
                 Text (escape_string impl (content_card_update_operation.content_key op)),
               Storage_data :=
                 Text (escape_string impl (content_card_update_operation.storage_data op)),
               Block_num := Number (unat block_num),
               Block_time := To_timestamp (unat (sec_since_epoch block_time)),
               Operation_type := Number 42)))"
proof -
  have "rows (handle_content_card_update impl op block_num block_time trx_id object_id) =
        (tables conn)(Indexer_content_cards := (tables conn Indexer_content_cards)(key \<mapsto>
           assign
             [(Hash, Text (escape_string impl (content_card_update_operation.hash op))),
              (Url, Text (escape_string impl (content_card_update_operation.url op))),
              (Type, Text (escape_string impl (content_card_update_operation.type op))),
              (Description,
               Text (escape_string impl (content_card_update_operation.description op))),
              (Content_key,
               Text (escape_string impl (content_card_update_operation.content_key op))),
              (Storage_data,
               Text (escape_string impl (content_card_update_operation.storage_data op))),
              (Block_num, Number (unat block_num)),
              (Block_time, To_timestamp (unat (sec_since_epoch block_time))),
              (Operation_type, Number 42)]
             existing))"
    unfolding handle_content_card_update_def
    using accepted existing key
    by (subst (asm) content_card_update_sql_def, subst content_card_update_sql_def)
       (simp add: rows_insert_conflict [OF conn] Let_def inserted_row_def)
  then show ?thesis
    by (simp add: assign_def fun_eq_iff)
qed

text \<open>The theorem at the stored card \<open>1.7.3\<close>, updated in block 101.\<close>

theorem content_card_update_conflict_witness:
  "row_columns (handle_content_card_update example_impl_rows example_update 101 1003 ''cd'' ''1.7.3'')
        Indexer_content_cards (Text ''1.7.3'')
        [Content_card_id, Subject_account, Hash, Url, Type, Description, Content_key, Storage_data, Block_num, Block_time, Trx_id, Operation_type, Is_removed]
   = Some [Text ''1.7.3'', Text ''1.2.5'', Text ''ef01'', Text ''u2'', Text ''t2'', Text ''d2'',
           Text ''k2'', Text ''s2'', Number 101, To_timestamp 1003, Text ''aa'', Number 42,
           Boolean False]"
proof -
  have conn: "pg_conn example_impl_rows = Some example_conn_rows"
    by (simp add: example_impl_rows_def)
  have accepted: "\<not> refused example_conn_rows n sql" for n sql
    by (simp add: example_conn_rows_def)
  have key: "Text ''1.7.3'' =
      Text (escape_string example_impl_rows (if ''1.7.3'' = [] then ''pending-'' @ ''cd'' else ''1.7.3''))"
    by (simp add: example_impl_rows_escape)
  have existing: "tables example_conn_rows Indexer_content_cards (Text ''1.7.3'') = Some example_card_row"
    by (simp add: example_conn_rows_def example_tables_def)
  show ?thesis
    using content_card_update_conflict [OF conn accepted key existing, of example_update 101 1003]
    by (simp add: row_columns_def example_impl_rows_escape example_update_def
        example_card_row_def inserted_row_def sec_since_epoch_def)
qed

text \<open>
  The transaction id is not overwritten: a card created in block 100 by transaction
  \<open>ab\<close> and updated in block 101 by transaction \<open>cd\<close> carries the new hash, block 101
  and kind 42, and still the transaction id \<open>ab\<close>.
\<close>

theorem content_card_update_keeps_trx_id_counterexample:
  "on_block example_impl example_block create_only = Some created_once \<and>
   on_block created_once example_block_101 update_only = Some updated_once \<and>
   row_columns created_once Indexer_content_cards (Text ''1.7.3'')
     [Hash, Block_num, Trx_id, Operation_type] =
     Some [Text ''abcd'', Number 100, Text ''ab'', Number 41] \<and>
   row_columns updated_once Indexer_content_cards (Text ''1.7.3'')
     [Hash, Block_num, Trx_id, Operation_type] =
     Some [Text ''ef01'', Number 101, Text ''ab'', Number 42]"
proof (intro conjI)
  show "on_block example_impl example_block create_only = Some created_once"
    unfolding created_once_def by (rule on_block_example)
  show "on_block created_once example_block_101 update_only = Some updated_once"
    unfolding updated_once_def created_once_def by (rule on_block_from_example)
  show "row_columns created_once Indexer_content_cards (Text ''1.7.3'')
     [Hash, Block_num, Trx_id, Operation_type] =
     Some [Text ''abcd'', Number 100, Text ''ab'', Number 41]"
    by (simp add: created_once_def create_only_def run_defs plugin_defs example_defs
        example_ids_rendered)
  show "row_columns updated_once Indexer_content_cards (Text ''1.7.3'')
     [Hash, Block_num, Trx_id, Operation_type] =
     Some [Text ''ef01'', Number 101, Text ''ab'', Number 42]"
    by (simp add: updated_once_def created_once_def create_only_def update_only_def run_defs
        plugin_defs example_defs example_ids_rendered)
qed

subsection \<open>Placeholder keys\<close>

text \<open>
  Claim C4, as amended. Placeholder synthesis is a function of the transaction id and,
  for bulk items, of the index: a single create without a resolved identifier is keyed
  by \<open>pending-<trx>\<close>, and the bulk handler keys item \<open>i\<close> by \<open>bulk_permission_id\<close>, which
  past the resolved identifiers is \<open>pending-<trx>-<i>\<close>. Within one bulk operation the
  placeholders of different items differ, and each differs from \<open>pending-<trx>\<close>.
  Uniqueness holds per operation, not per transaction.
\<close>

theorem placeholder_keys_per_operation:
  fixes cop :: content_card_create_operation and pop :: permission_create_operation
    and bulk :: permission_create_many_operation and block_num :: "32 word"
    and trx_id :: string and new_objects :: "object_id_type flat_set"
  assumes conn: "pg_conn impl = Some conn"
  shows
    "stmt_key (content_card_create_sql impl cop block_num block_time trx_id []) =
       Text (escape_string impl (''pending-'' @ trx_id)) \<and>
     stmt_key (permission_create_sql impl pop block_num block_time trx_id []) =
       Text (escape_string impl (''pending-'' @ trx_id)) \<and>
     map stmt_key
       (drop (length (sent conn))
          (statements_sent
             (handle_permission_create_many impl bulk block_num block_time trx_id new_objects))) =
       map (\<lambda>i. Text (escape_string impl (bulk_permission_id trx_id new_objects i)))
         [0..<length (permissions bulk)] \<and>
     (\<forall>i. length new_objects \<le> i \<longrightarrow>
        bulk_permission_id trx_id new_objects i = ''pending-'' @ trx_id @ ''-'' @ to_string i \<and>
        bulk_permission_id trx_id new_objects i \<noteq> ''pending-'' @ trx_id) \<and>
     (\<forall>i j. length new_objects \<le> i \<and> length new_objects \<le> j \<and> i \<noteq> j \<longrightarrow>
        bulk_permission_id trx_id new_objects i \<noteq> bulk_permission_id trx_id new_objects j)"
proof (intro conjI allI impI)
  show "stmt_key (content_card_create_sql impl cop block_num block_time trx_id []) =
       Text (escape_string impl (''pending-'' @ trx_id))"
    by (simp add: content_card_create_sql_def inserted_row_def)
  show "stmt_key (permission_create_sql impl pop block_num block_time trx_id []) =
       Text (escape_string impl (''pending-'' @ trx_id))"
    by (simp add: permission_create_sql_def inserted_row_def)
  have "statements_sent impl = sent conn"
    using conn by (simp add: statements_sent_def)
  then show "map stmt_key
       (drop (length (sent conn))
          (statements_sent
             (handle_permission_create_many impl bulk block_num block_time trx_id new_objects))) =
       map (\<lambda>i. Text (escape_string impl (bulk_permission_id trx_id new_objects i)))
         [0..<length (permissions bulk)]"
    using statements_sent_run_stmts [OF conn]
    by (simp add: handle_permission_create_many_run permission_create_many_statements_def
        permission_create_many_sql_def inserted_row_def o_def)
next
  fix i
  assume "length new_objects \<le> i"
  then show "bulk_permission_id trx_id new_objects i = ''pending-'' @ trx_id @ ''-'' @ to_string i"
    by (simp add: bulk_permission_id_def)
next
  fix i
  assume "length new_objects \<le> i"
  then show "bulk_permission_id trx_id new_objects i \<noteq> ''pending-'' @ trx_id"
    by (simp add: bulk_permission_id_def)
next
  fix i j
  assume "length new_objects \<le> i \<and> length new_objects \<le> j \<and> i \<noteq> j"
  then show "bulk_permission_id trx_id new_objects i \<noteq> bulk_permission_id trx_id new_objects j"
    using pending_ids_distinct [of i j trx_id] by (simp add: bulk_permission_id_def)
qed

text \<open>The theorem at transaction \<open>ab\<close> and a batch of three with one resolved identifier.\<close>

theorem placeholder_keys_witness:
  "stmt_key (content_card_create_sql example_impl example_create 100 1000 ''ab'' []) =
     Text ''pending-ab'' \<and>
   stmt_key (permission_create_sql example_impl example_permission 100 1000 ''ab'' []) =
     Text ''pending-ab'' \<and>
   map stmt_key
     (statements_sent
        (handle_permission_create_many example_impl example_bulk3 100 1000 ''ab''
           [permission_1_9_4])) =
     [Text (bulk_permission_id ''ab'' [permission_1_9_4] 0),
      Text (bulk_permission_id ''ab'' [permission_1_9_4] 1),
      Text (bulk_permission_id ''ab'' [permission_1_9_4] 2)] \<and>
   bulk_permission_id ''ab'' [permission_1_9_4] 1 = ''pending-ab-1'' \<and>
   bulk_permission_id ''ab'' [permission_1_9_4] 2 = ''pending-ab-2'' \<and>
   bulk_permission_id ''ab'' [permission_1_9_4] 1 \<noteq> ''pending-ab'' \<and>
   bulk_permission_id ''ab'' [permission_1_9_4] 1 \<noteq> bulk_permission_id ''ab'' [permission_1_9_4] 2"
proof -
  have conn: "pg_conn example_impl = Some example_conn"
    by (simp add: example_impl_def)
  have upto: "[0..<3] = [0, 1, 2]"
    by (simp add: upt_rec)
  note inst = placeholder_keys_per_operation
    [OF conn, of example_create 100 1000 "''ab''" example_permission example_bulk3
       "[permission_1_9_4]"]
  have one: "bulk_permission_id ''ab'' [permission_1_9_4] 1 = ''pending-ab-1''"
    using inst [THEN conjunct2, THEN conjunct2, THEN conjunct2, THEN conjunct1, rule_format, of 1]
    by (simp add: to_string_small)
  have two: "bulk_permission_id ''ab'' [permission_1_9_4] 2 = ''pending-ab-2''"
    using inst [THEN conjunct2, THEN conjunct2, THEN conjunct2, THEN conjunct1, rule_format, of 2]
    by (simp add: to_string_small)
  have sent: "map stmt_key
     (statements_sent
        (handle_permission_create_many example_impl example_bulk3 100 1000 ''ab''
           [permission_1_9_4])) =
     [Text (bulk_permission_id ''ab'' [permission_1_9_4] 0),
      Text (bulk_permission_id ''ab'' [permission_1_9_4] 1),
      Text (bulk_permission_id ''ab'' [permission_1_9_4] 2)]"
    using inst [THEN conjunct2, THEN conjunct2, THEN conjunct1]
    by (simp add: example_impl_escape example_conn_def example_bulk3_def upto numeral_2_eq_2)
  show ?thesis
    using inst [THEN conjunct1] inst [THEN conjunct2, THEN conjunct1] sent one two
    by (simp add: example_impl_escape)
qed

text \<open>
  Two content-card creates of one transaction, both without a resolved identifier, are
  keyed alike: the second meets the row of the first, which ends with the subject
  account of the first create and the hash of the second.
\<close>

theorem two_creates_one_placeholder_counterexample:
  "on_block example_impl example_block two_creates = Some two_creates_once \<and>
   map stmt_key (statements_sent two_creates_once) = [Text ''pending-ab'', Text ''pending-ab''] \<and>
   row_columns two_creates_once Indexer_content_cards (Text ''pending-ab'')
     [Content_card_id, Subject_account, Hash] =
     Some [Text ''pending-ab'', Text ''1.2.5'', Text ''ef01'']"
proof (intro conjI)
  show "on_block example_impl example_block two_creates = Some two_creates_once"
    unfolding two_creates_once_def by (rule on_block_example)
  show "map stmt_key (statements_sent two_creates_once) = [Text ''pending-ab'', Text ''pending-ab'']"
    by (simp add: two_creates_once_def run_defs plugin_defs example_defs)
  show "row_columns two_creates_once Indexer_content_cards (Text ''pending-ab'')
     [Content_card_id, Subject_account, Hash] =
     Some [Text ''pending-ab'', Text ''1.2.5'', Text ''ef01'']"
    by (simp add: two_creates_once_def run_defs plugin_defs example_defs example_ids_rendered)
qed

subsection \<open>The bulk permission create\<close>

text \<open>
  Claim C5. For a bulk permission create with \<open>N\<close> batch items the handler hands the
  connection exactly \<open>N\<close> statements after whatever was sent before, one per item and in
  array order. The statement of item \<open>i\<close> is an insert into the permissions table, with
  \<open>permission_id\<close> as its conflict target, that carries the operation's subject account,
  the item's own operator account, permission type, referenced object and content key,
  the block number and time, the transaction id, kind 64 and a cleared removal flag; it
  is keyed by the \<open>i\<close>-th identifier of the resolved set while there is one and by the
  placeholder \<open>pending-<trx>-<i>\<close> once the set is exhausted. The placeholders of the
  unresolved suffix are pairwise distinct, and so are the keys of the statements sent
  for them whenever the connection quotes both placeholders.
\<close>

theorem bulk_create_one_insert_per_item:
  fixes op :: permission_create_many_operation and block_num :: "32 word"
    and trx_id :: string and new_objects :: "object_id_type flat_set"
  assumes conn: "pg_conn impl = Some conn"
  shows
    "statements_sent
       (handle_permission_create_many impl op block_num block_time trx_id new_objects) =
     sent conn @
     map (\<lambda>i. Insert_on_conflict Indexer_permissions
            [(Permission_id,
              Text (escape_string impl
                (if i < length new_objects then object_id_to_string (new_objects ! i)
                 else ''pending-'' @ trx_id @ ''-'' @ to_string i))),
             (Subject_account,
              Text (escape_string impl
                (object_id_to_string (permission_create_many_operation.subject_account op)))),
             (Operator_account,
              Text (escape_string impl
                (object_id_to_string (permission_data.operator_account (permissions op ! i))))),
             (Permission_type,
              Text (escape_string impl (permission_data.permission_type (permissions op ! i)))),
             (Object_id,
              Text (escape_string impl
                (case permission_data.object_id (permissions op ! i) of
                   Some x \<Rightarrow> object_id_to_string x | None \<Rightarrow> []))),
             (Content_key,
              Text (escape_string impl (permission_data.content_key (permissions op ! i)))),
             (Block_num, Number (unat block_num)),
             (Block_time, To_timestamp (unat (sec_since_epoch block_time))),
             (Trx_id, Text (escape_string impl trx_id)),
             (Operation_type, Number 64),
             (Is_removed, Boolean False)]
            Permission_id
            [(Permission_type, Excluded Permission_type), (Content_key, Excluded Content_key)])
       [0..<length (permissions op)]
     \<and>
     (\<forall>i j. length new_objects \<le> i \<and> i < j \<and> j < length (permissions op) \<longrightarrow>
        ''pending-'' @ trx_id @ ''-'' @ to_string i \<noteq> ''pending-'' @ trx_id @ ''-'' @ to_string j)
     \<and>
     (\<forall>i j. length new_objects \<le> i \<and> i < j \<and> j < length (permissions op) \<and>
            quotable conn (''pending-'' @ trx_id @ ''-'' @ to_string i) \<and>
            quotable conn (''pending-'' @ trx_id @ ''-'' @ to_string j) \<longrightarrow>
        stmt_key
          (statements_sent
             (handle_permission_create_many impl op block_num block_time trx_id new_objects)
           ! (length (sent conn) + i)) \<noteq>
        stmt_key
          (statements_sent
             (handle_permission_create_many impl op block_num block_time trx_id new_objects)
           ! (length (sent conn) + j)))"
proof -
  let ?S = "statements_sent
       (handle_permission_create_many impl op block_num block_time trx_id new_objects)"
  let ?F = "\<lambda>i. permission_create_many_sql impl
                 (object_id_to_string (permission_create_many_operation.subject_account op))
                 (permissions op ! i) (bulk_permission_id trx_id new_objects i)
                 block_num block_time trx_id"
  have "statements_sent impl = sent conn"
    using conn by (simp add: statements_sent_def)
  then have S: "?S = sent conn @ map ?F [0..<length (permissions op)]"
    using statements_sent_run_stmts [OF conn]
    by (simp add: handle_permission_create_many_run permission_create_many_statements_def)
  have distinct: "''pending-'' @ trx_id @ ''-'' @ to_string i \<noteq>
                  ''pending-'' @ trx_id @ ''-'' @ to_string j" if "i < j" for i j
    using that pending_ids_distinct [of i j trx_id] by simp
  have esc: "escape_string impl s = s" if "quotable conn s" for s
    using that conn by (simp add: escape_string_def PQescapeLiteral_def)
  have key: "stmt_key (?S ! (length (sent conn) + i)) =
             Text (''pending-'' @ trx_id @ ''-'' @ to_string i)"
    if "length new_objects \<le> i" "i < length (permissions op)"
       "quotable conn (''pending-'' @ trx_id @ ''-'' @ to_string i)" for i
  proof -
    have "?S ! (length (sent conn) + i) = ?F i"
      using that by (simp add: S nth_append)
    moreover have "stmt_key (?F i) =
        Text (escape_string impl (''pending-'' @ trx_id @ ''-'' @ to_string i))"
      using that
      by (simp add: permission_create_many_sql_def bulk_permission_id_def inserted_row_def
          Let_def)
    ultimately show ?thesis
      using esc [OF that(3)] by simp
  qed
  show ?thesis
  proof (intro conjI allI impI)
    show "?S = sent conn @
     map (\<lambda>i. Insert_on_conflict Indexer_permissions
            [(Permission_id,
              Text (escape_string impl
                (if i < length new_objects then object_id_to_string (new_objects ! i)
                 else ''pending-'' @ trx_id @ ''-'' @ to_string i))),
             (Subject_account,
              Text (escape_string impl
                (object_id_to_string (permission_create_many_operation.subject_account op)))),
             (Operator_account,
              Text (escape_string impl
                (object_id_to_string (permission_data.operator_account (permissions op ! i))))),
             (Permission_type,
              Text (escape_string impl (permission_data.permission_type (permissions op ! i)))),
             (Object_id,
              Text (escape_string impl
                (case permission_data.object_id (permissions op ! i) of
                   Some x \<Rightarrow> object_id_to_string x | None \<Rightarrow> []))),
             (Content_key,
              Text (escape_string impl (permission_data.content_key (permissions op ! i)))),
             (Block_num, Number (unat block_num)),
             (Block_time, To_timestamp (unat (sec_since_epoch block_time))),
             (Trx_id, Text (escape_string impl trx_id)),
             (Operation_type, Number 64),
             (Is_removed, Boolean False)]
            Permission_id
            [(Permission_type, Excluded Permission_type), (Content_key, Excluded Content_key)])
       [0..<length (permissions op)]"
      unfolding S
      by (simp add: permission_create_many_sql_def bulk_permission_id_def Let_def)
  next
    fix i j
    assume "length new_objects \<le> i \<and> i < j \<and> j < length (permissions op)"
    then show "''pending-'' @ trx_id @ ''-'' @ to_string i \<noteq>
               ''pending-'' @ trx_id @ ''-'' @ to_string j"
      using distinct [of i j] by simp
  next
    fix i j
    assume h: "length new_objects \<le> i \<and> i < j \<and> j < length (permissions op) \<and>
            quotable conn (''pending-'' @ trx_id @ ''-'' @ to_string i) \<and>
            quotable conn (''pending-'' @ trx_id @ ''-'' @ to_string j)"
    then have "stmt_key (?S ! (length (sent conn) + i)) =
                 Text (''pending-'' @ trx_id @ ''-'' @ to_string i)"
      and "stmt_key (?S ! (length (sent conn) + j)) =
                 Text (''pending-'' @ trx_id @ ''-'' @ to_string j)"
      using key [of i] key [of j] by simp_all
    then show "stmt_key (?S ! (length (sent conn) + i)) \<noteq> stmt_key (?S ! (length (sent conn) + j))"
      using distinct [of i j] h by simp
  qed
qed

text \<open>
  The theorem at a batch of three with one resolved identifier: the three statements
  sent, and the keys of the two unresolved items.
\<close>

theorem bulk_create_witness:
  "statements_sent
     (handle_permission_create_many example_impl example_bulk3 100 1000 ''ab'' [permission_1_9_4]) =
     [Insert_on_conflict Indexer_permissions
        [(Permission_id, Text ''1.9.4''), (Subject_account, Text ''1.2.5''),
         (Operator_account, Text ''1.2.6''), (Permission_type, Text ''read''),
         (Object_id, Text ''1.7.3''), (Content_key, Text ''k3''),
         (Block_num, Number 100), (Block_time, To_timestamp 1000), (Trx_id, Text ''ab''),
         (Operation_type, Number 64), (Is_removed, Boolean False)]
        Permission_id
        [(Permission_type, Excluded Permission_type), (Content_key, Excluded Content_key)],
      Insert_on_conflict Indexer_permissions
        [(Permission_id, Text ''pending-ab-1''), (Subject_account, Text ''1.2.5''),
         (Operator_account, Text ''1.2.5''), (Permission_type, Text ''write''),
         (Object_id, Text []), (Content_key, Text ''k4''),
         (Block_num, Number 100), (Block_time, To_timestamp 1000), (Trx_id, Text ''ab''),
         (Operation_type, Number 64), (Is_removed, Boolean False)]
        Permission_id
        [(Permission_type, Excluded Permission_type), (Content_key, Excluded Content_key)],
      Insert_on_conflict Indexer_permissions
        [(Permission_id, Text ''pending-ab-2''), (Subject_account, Text ''1.2.5''),
         (Operator_account, Text ''1.2.6''), (Permission_type, Text ''read''),
         (Object_id, Text ''1.7.3''), (Content_key, Text ''k3''),
         (Block_num, Number 100), (Block_time, To_timestamp 1000), (Trx_id, Text ''ab''),
         (Operation_type, Number 64), (Is_removed, Boolean False)]
        Permission_id
        [(Permission_type, Excluded Permission_type), (Content_key, Excluded Content_key)]] \<and>
   ''pending-'' @ ''ab'' @ ''-'' @ to_string 1 \<noteq> ''pending-'' @ ''ab'' @ ''-'' @ to_string 2 \<and>
   stmt_key
     (statements_sent
        (handle_permission_create_many example_impl example_bulk3 100 1000 ''ab''
           [permission_1_9_4]) ! 1) \<noteq>
   stmt_key
     (statements_sent
        (handle_permission_create_many example_impl example_bulk3 100 1000 ''ab''
           [permission_1_9_4]) ! 2)"
proof -
  have conn: "pg_conn example_impl = Some example_conn"
    by (simp add: example_impl_def)
  have upto: "[0..<3] = [0, 1, 2]"
    by (simp add: upt_rec)
  have nums: "unat (100 :: 32 word) = 100" "unat (1000 :: 32 word) = 1000"
    by simp_all
  note inst = bulk_create_one_insert_per_item
    [OF conn, of example_bulk3 100 1000 "''ab''" "[permission_1_9_4]"]
  show ?thesis
  proof (intro conjI)
    show "statements_sent
     (handle_permission_create_many example_impl example_bulk3 100 1000 ''ab'' [permission_1_9_4]) =
     [Insert_on_conflict Indexer_permissions
        [(Permission_id, Text ''1.9.4''), (Subject_account, Text ''1.2.5''),
         (Operator_account, Text ''1.2.6''), (Permission_type, Text ''read''),
         (Object_id, Text ''1.7.3''), (Content_key, Text ''k3''),
         (Block_num, Number 100), (Block_time, To_timestamp 1000), (Trx_id, Text ''ab''),
         (Operation_type, Number 64), (Is_removed, Boolean False)]
        Permission_id
        [(Permission_type, Excluded Permission_type), (Content_key, Excluded Content_key)],
      Insert_on_conflict Indexer_permissions
        [(Permission_id, Text ''pending-ab-1''), (Subject_account, Text ''1.2.5''),
         (Operator_account, Text ''1.2.5''), (Permission_type, Text ''write''),
         (Object_id, Text []), (Content_key, Text ''k4''),
         (Block_num, Number 100), (Block_time, To_timestamp 1000), (Trx_id, Text ''ab''),
         (Operation_type, Number 64), (Is_removed, Boolean False)]
        Permission_id
        [(Permission_type, Excluded Permission_type), (Content_key, Excluded Content_key)],
      Insert_on_conflict Indexer_permissions
        [(Permission_id, Text ''pending-ab-2''), (Subject_account, Text ''1.2.5''),
         (Operator_account, Text ''1.2.6''), (Permission_type, Text ''read''),
         (Object_id, Text ''1.7.3''), (Content_key, Text ''k3''),
         (Block_num, Number 100), (Block_time, To_timestamp 1000), (Trx_id, Text ''ab''),
         (Operation_type, Number 64), (Is_removed, Boolean False)]
        Permission_id
        [(Permission_type, Excluded Permission_type), (Content_key, Excluded Content_key)]]"
      using inst [THEN conjunct1]
      by (simp add: example_conn_def example_bulk3_def example_item_def example_item2_def upto
          example_impl_escape example_ids_rendered to_string_small
          sec_since_epoch_def)
    show "''pending-'' @ ''ab'' @ ''-'' @ to_string 1 \<noteq> ''pending-'' @ ''ab'' @ ''-'' @ to_string 2"
      using inst [THEN conjunct2, THEN conjunct1, rule_format, of 1 2]
      by (simp add: example_bulk3_def)
    show "stmt_key
     (statements_sent
        (handle_permission_create_many example_impl example_bulk3 100 1000 ''ab''
           [permission_1_9_4]) ! 1) \<noteq>
     stmt_key
     (statements_sent
        (handle_permission_create_many example_impl example_bulk3 100 1000 ''ab''
           [permission_1_9_4]) ! 2)"
      using inst [THEN conjunct2, THEN conjunct2, rule_format, of 1 2]
      by (simp add: example_bulk3_def example_conn_def numeral_2_eq_2)
  qed
qed

subsection \<open>A create that meets an existing row\<close>

text \<open>
  Claim C6. When the insert of a content-card create is accepted and conflicts with an
  existing row, only hash, url, type, description, content key and storage data are
  overwritten; block number, block time, transaction id, operation kind, soft-delete
  flag and every other column keep their values. When the insert of a permission create
  conflicts, only permission type and content key are overwritten. No other row of
  either table changes.
\<close>

theorem create_conflict_overwrites_mutable_only:
  fixes op :: content_card_create_operation and pop :: permission_create_operation
    and block_num :: "32 word" and trx_id :: string and object_id :: string
  assumes conn: "pg_conn impl = Some conn"
    and key: "key = Text (escape_string impl (if object_id = [] then ''pending-'' @ trx_id else object_id))"
  shows
    "(\<not> refused conn (length (sent conn)) (content_card_create_sql impl op block_num block_time trx_id object_id) \<and>
      tables conn Indexer_content_cards key = Some existing
      \<longrightarrow>
      rows (handle_content_card_create impl op block_num block_time trx_id object_id) =
        (tables conn)(Indexer_content_cards := (tables conn Indexer_content_cards)(key \<mapsto>
           existing
             (Hash := Text (escape_string impl (content_card_create_operation.hash op)),
              Url := Text (escape_string impl (content_card_create_operation.url op)),
              Type := Text (escape_string impl (content_card_create_operation.type op)),
              Description :=
                Text (escape_string impl (content_card_create_operation.description op)),
              Content_key :=
                Text (escape_string impl (content_card_create_operation.content_key op)),
              Storage_data :=
                Text (escape_string impl (content_card_create_operation.storage_data op))))))
     \<and>
     (\<not> refused conn (length (sent conn)) (permission_create_sql impl pop block_num block_time trx_id object_id) \<and>
      tables conn Indexer_permissions key = Some existing
      \<longrightarrow>
      rows (handle_permission_create impl pop block_num block_time trx_id object_id) =
        (tables conn)(Indexer_permissions := (tables conn Indexer_permissions)(key \<mapsto>
           existing
             (Permission_type :=
                Text (escape_string impl (permission_create_operation.permission_type pop)),
              Content_key :=
                Text (escape_string impl (permission_create_operation.content_key pop))))))"
proof (intro conjI impI)
  assume h: "\<not> refused conn (length (sent conn)) (content_card_create_sql impl op block_num block_time trx_id object_id) \<and>
      tables conn Indexer_content_cards key = Some existing"
  have "rows (handle_content_card_create impl op block_num block_time trx_id object_id) =
        (tables conn)(Indexer_content_cards := (tables conn Indexer_content_cards)(key \<mapsto>
           assign
             [(Hash, Text (escape_string impl (content_card_create_operation.hash op))),
              (Url, Text (escape_string impl (content_card_create_operation.url op))),
              (Type, Text (escape_string impl (content_card_create_operation.type op))),
              (Description,
               Text (escape_string impl (content_card_create_operation.description op))),
              (Content_key,
               Text (escape_string impl (content_card_create_operation.content_key op))),
              (Storage_data,
               Text (escape_string impl (content_card_create_operation.storage_data op)))]
             existing))"
    unfolding handle_content_card_create_def
    using h key
    by (subst (asm) content_card_create_sql_def, subst content_card_create_sql_def)
       (simp add: rows_insert_conflict [OF conn] Let_def inserted_row_def)
  then show "rows (handle_content_card_create impl op block_num block_time trx_id object_id) =
        (tables conn)(Indexer_content_cards := (tables conn Indexer_content_cards)(key \<mapsto>
           existing
             (Hash := Text (escape_string impl (content_card_create_operation.hash op)),
              Url := Text (escape_string impl (content_card_create_operation.url op)),
              Type := Text (escape_string impl (content_card_create_operation.type op)),
              Description :=
                Text (escape_string impl (content_card_create_operation.description op)),
              Content_key :=
                Text (escape_string impl (content_card_create_operation.content_key op)),
              Storage_data :=
                Text (escape_string impl (content_card_create_operation.storage_data op)))))"
    by (simp add: assign_def fun_eq_iff)
next
  assume h: "\<not> refused conn (length (sent conn)) (permission_create_sql impl pop block_num block_time trx_id object_id) \<and>
      tables conn Indexer_permissions key = Some existing"
  have "rows (handle_permission_create impl pop block_num block_time trx_id object_id) =
        (tables conn)(Indexer_permissions := (tables conn Indexer_permissions)(key \<mapsto>
           assign
             [(Permission_type,
               Text (escape_string impl (permission_create_operation.permission_type pop))),
              (Content_key,
               Text (escape_string impl (permission_create_operation.content_key pop)))]
             existing))"
    unfolding handle_permission_create_def
    using h key
    by (subst (asm) permission_create_sql_def, subst permission_create_sql_def)
       (simp add: rows_insert_conflict [OF conn] Let_def inserted_row_def)
  then show "rows (handle_permission_create impl pop block_num block_time trx_id object_id) =
        (tables conn)(Indexer_permissions := (tables conn Indexer_permissions)(key \<mapsto>
           existing
             (Permission_type :=
                Text (escape_string impl (permission_create_operation.permission_type pop)),
              Content_key :=
                Text (escape_string impl (permission_create_operation.content_key pop)))))"
    by (simp add: assign_def fun_eq_iff)
qed

text \<open>The theorem at the stored card \<open>1.7.3\<close> and the stored permission \<open>1.9.4\<close>.\<close>

theorem create_conflict_witness:
  "row_columns (handle_content_card_create example_impl_rows example_create2 101 1003 ''cd'' ''1.7.3'')
        Indexer_content_cards (Text ''1.7.3'')
        [Content_card_id, Subject_account, Hash, Url, Type, Description, Content_key, Storage_data, Block_num, Block_time, Trx_id, Operation_type, Is_removed]
   = Some [Text ''1.7.3'', Text ''1.2.5'', Text ''ef01'', Text ''u2'', Text ''t2'', Text ''d2'',
           Text ''k2'', Text ''s2'', Number 90, To_timestamp 900, Text ''aa'', Number 41,
           Boolean False] \<and>
   row_columns (handle_permission_create example_impl_rows example_permission 101 1003 ''cd'' ''1.9.4'')
        Indexer_permissions (Text ''1.9.4'')
        [Permission_id, Subject_account, Operator_account, Permission_type, Object_id, Content_key, Block_num, Block_time, Trx_id, Operation_type, Is_removed]
   = Some [Text ''1.9.4'', Text ''1.2.5'', Text ''1.2.6'', Text ''write'', Text ''1.7.3'',
           Text ''k9'', Number 90, To_timestamp 900, Text ''aa'', Number 44, Boolean False]"
proof -
  have conn: "pg_conn example_impl_rows = Some example_conn_rows"
    by (simp add: example_impl_rows_def)
  have accepted: "\<not> refused example_conn_rows n sql" for n sql
    by (simp add: example_conn_rows_def)
  have ckey: "Text ''1.7.3'' =
      Text (escape_string example_impl_rows (if ''1.7.3'' = [] then ''pending-'' @ ''cd'' else ''1.7.3''))"
    by (simp add: example_impl_rows_escape)
  have pkey: "Text ''1.9.4'' =
      Text (escape_string example_impl_rows (if ''1.9.4'' = [] then ''pending-'' @ ''cd'' else ''1.9.4''))"
    by (simp add: example_impl_rows_escape)
  have card: "tables example_conn_rows Indexer_content_cards (Text ''1.7.3'') = Some example_card_row"
    by (simp add: example_conn_rows_def example_tables_def)
  have perm: "tables example_conn_rows Indexer_permissions (Text ''1.9.4'') = Some example_permission_row"
    by (simp add: example_conn_rows_def example_tables_def)
  have c: "rows (handle_content_card_create example_impl_rows example_create2 101 1003 ''cd'' ''1.7.3'')
             Indexer_content_cards (Text ''1.7.3'') =
           Some (example_card_row
             (Hash := Text ''ef01'', Url := Text ''u2'', Type := Text ''t2'',
              Description := Text ''d2'', Content_key := Text ''k2'', Storage_data := Text ''s2''))"
    using create_conflict_overwrites_mutable_only
            [OF conn ckey, of example_create2 101 1003 example_card_row] accepted card
    by (simp add: example_impl_rows_escape example_create2_def)
  have p: "rows (handle_permission_create example_impl_rows example_permission 101 1003 ''cd'' ''1.9.4'')
             Indexer_permissions (Text ''1.9.4'') =
           Some (example_permission_row
             (Permission_type := Text ''write'', Content_key := Text ''k9''))"
    using create_conflict_overwrites_mutable_only
            [OF conn pkey, of _ 101 1003 example_permission_row example_permission] accepted perm
    by (simp add: example_impl_rows_escape example_permission_def)
  show ?thesis
    unfolding row_columns_def c p
    by (simp add: example_card_row_def example_permission_row_def inserted_row_def)
qed

subsection \<open>Removes\<close>

text \<open>
  Claim C7. A content-card remove, and likewise a permission remove, whose statement
  is accepted updates the row under its identifier: the soft-delete flag becomes true,
  block number and block time become those of the block, the operation kind becomes 43
  (45 for a permission), and every other column and every other row keeps its value.
  With no row under the identifier nothing is inserted and both tables are unchanged.
\<close>

theorem remove_updates_existing_row_only:
  fixes op :: content_card_remove_operation and pop :: permission_remove_operation
    and block_num :: "32 word" and trx_id :: string
  assumes conn: "pg_conn impl = Some conn"
    and ckey: "ckey = Text (escape_string impl (object_id_to_string (content_id op)))"
    and pkey: "pkey = Text (escape_string impl (object_id_to_string (permission_id pop)))"
  shows
    "(\<not> refused conn (length (sent conn)) (content_card_remove_sql impl op block_num block_time trx_id) \<and>
      tables conn Indexer_content_cards ckey = Some existing
      \<longrightarrow>
      rows (handle_content_card_remove impl op block_num block_time trx_id) =
        (tables conn)(Indexer_content_cards := (tables conn Indexer_content_cards)(ckey \<mapsto>
           existing(Is_removed := Boolean True,
                    Block_num := Number (unat block_num),
                    Block_time := To_timestamp (unat (sec_since_epoch block_time)),
                    Operation_type := Number 43))))
     \<and>
     (tables conn Indexer_content_cards ckey = None
      \<longrightarrow> rows (handle_content_card_remove impl op block_num block_time trx_id) = tables conn)
     \<and>
     (\<not> refused conn (length (sent conn)) (permission_remove_sql impl pop block_num block_time trx_id) \<and>
      tables conn Indexer_permissions pkey = Some existing
      \<longrightarrow>
      rows (handle_permission_remove impl pop block_num block_time trx_id) =
        (tables conn)(Indexer_permissions := (tables conn Indexer_permissions)(pkey \<mapsto>
           existing(Is_removed := Boolean True,
                    Block_num := Number (unat block_num),
                    Block_time := To_timestamp (unat (sec_since_epoch block_time)),
                    Operation_type := Number 45))))
     \<and>
     (tables conn Indexer_permissions pkey = None
      \<longrightarrow> rows (handle_permission_remove impl pop block_num block_time trx_id) = tables conn)"
proof -
  have c: "rows (handle_content_card_remove impl op block_num block_time trx_id) =
        (if refused conn (length (sent conn)) (content_card_remove_sql impl op block_num block_time trx_id)
         then tables conn
         else (case tables conn Indexer_content_cards ckey of
                 None \<Rightarrow> tables conn
               | Some r \<Rightarrow> (tables conn)(Indexer_content_cards :=
                   (tables conn Indexer_content_cards)(ckey \<mapsto>
                      assign [(Is_removed, Boolean True),
                              (Block_num, Number (unat block_num)),
                              (Block_time, To_timestamp (unat (sec_since_epoch block_time))),
                              (Operation_type, Number 43)] r))))"
    using conn ckey
    by (simp add: handle_content_card_remove_def rows_execute_sql content_card_remove_sql_def
        Let_def split: option.split)
  have p: "rows (handle_permission_remove impl pop block_num block_time trx_id) =
        (if refused conn (length (sent conn)) (permission_remove_sql impl pop block_num block_time trx_id)
         then tables conn
         else (case tables conn Indexer_permissions pkey of
                 None \<Rightarrow> tables conn
               | Some r \<Rightarrow> (tables conn)(Indexer_permissions :=
                   (tables conn Indexer_permissions)(pkey \<mapsto>
                      assign [(Is_removed, Boolean True),
                              (Block_num, Number (unat block_num)),
                              (Block_time, To_timestamp (unat (sec_since_epoch block_time))),
                              (Operation_type, Number 45)] r))))"
    using conn pkey
    by (simp add: handle_permission_remove_def rows_execute_sql permission_remove_sql_def
        Let_def split: option.split)
  have a: "assign [(Is_removed, Boolean True), (Block_num, n), (Block_time, t), (Operation_type, k)] r
           = r(Is_removed := Boolean True, Block_num := n, Block_time := t, Operation_type := k)"
    for n t k and r :: row
    by (simp add: assign_def fun_eq_iff)
  show ?thesis
    unfolding c p by (simp add: a)
qed

text \<open>
  The theorem at the stored card and permission, and at the empty store for the
  absent case.
\<close>

theorem remove_witness:
  "row_columns (handle_content_card_remove example_impl_rows example_remove 101 1003 ''cd'')
        Indexer_content_cards (Text ''1.7.3'')
        [Content_card_id, Subject_account, Hash, Url, Type, Description, Content_key, Storage_data, Block_num, Block_time, Trx_id, Operation_type, Is_removed]
   = Some [Text ''1.7.3'', Text ''1.2.5'', Text ''abcd'', Text ''u1'', Text ''t1'', Text ''d1'',
           Text ''k1'', Text ''s1'', Number 101, To_timestamp 1003, Text ''aa'', Number 43,
           Boolean True] \<and>
   row_columns (handle_permission_remove example_impl_rows example_permission_remove 101 1003 ''cd'')
        Indexer_permissions (Text ''1.9.4'')
        [Block_num, Block_time, Trx_id, Operation_type, Is_removed]
   = Some [Number 101, To_timestamp 1003, Text ''aa'', Number 45, Boolean True] \<and>
   rows (handle_content_card_remove example_impl example_remove 101 1003 ''cd'') =
     tables example_conn \<and>
   rows (handle_permission_remove example_impl example_permission_remove 101 1003 ''cd'') =
     tables example_conn"
proof -
  have conn: "pg_conn example_impl_rows = Some example_conn_rows"
    by (simp add: example_impl_rows_def)
  have conn0: "pg_conn example_impl = Some example_conn"
    by (simp add: example_impl_def)
  have accepted: "\<not> refused example_conn_rows n sql" for n sql
    by (simp add: example_conn_rows_def)
  have ckey: "Text ''1.7.3'' =
      Text (escape_string example_impl_rows (object_id_to_string (content_id example_remove)))"
    by (simp add: example_impl_rows_escape example_remove_def example_ids_rendered)
  have pkey: "Text ''1.9.4'' =
      Text (escape_string example_impl_rows
              (object_id_to_string (permission_id example_permission_remove)))"
    by (simp add: example_impl_rows_escape example_permission_remove_def example_ids_rendered)
  have ckey0: "Text ''1.7.3'' =
      Text (escape_string example_impl (object_id_to_string (content_id example_remove)))"
    by (simp add: example_impl_escape example_remove_def example_ids_rendered)
  have pkey0: "Text ''1.9.4'' =
      Text (escape_string example_impl
              (object_id_to_string (permission_id example_permission_remove)))"
    by (simp add: example_impl_escape example_permission_remove_def example_ids_rendered)
  have card: "tables example_conn_rows Indexer_content_cards (Text ''1.7.3'') = Some example_card_row"
    by (simp add: example_conn_rows_def example_tables_def)
  have perm: "tables example_conn_rows Indexer_permissions (Text ''1.9.4'') = Some example_permission_row"
    by (simp add: example_conn_rows_def example_tables_def)
  have none: "tables example_conn t k = None" for t k
    by (simp add: example_conn_def)
  have c: "rows (handle_content_card_remove example_impl_rows example_remove 101 1003 ''cd'')
             Indexer_content_cards (Text ''1.7.3'') =
           Some (example_card_row
             (Is_removed := Boolean True, Block_num := Number 101,
              Block_time := To_timestamp 1003, Operation_type := Number 43))"
    using remove_updates_existing_row_only
            [OF conn ckey pkey, of 101 1003 "''cd''" example_card_row] accepted card
    by (simp add: sec_since_epoch_def)
  have p: "rows (handle_permission_remove example_impl_rows example_permission_remove 101 1003 ''cd'')
             Indexer_permissions (Text ''1.9.4'') =
           Some (example_permission_row
             (Is_removed := Boolean True, Block_num := Number 101,
              Block_time := To_timestamp 1003, Operation_type := Number 45))"
    using remove_updates_existing_row_only
            [OF conn ckey pkey, of 101 1003 "''cd''" example_permission_row] accepted perm
    by (simp add: sec_since_epoch_def)
  have absent:
    "rows (handle_content_card_remove example_impl example_remove 101 1003 ''cd'') =
       tables example_conn"
    "rows (handle_permission_remove example_impl example_permission_remove 101 1003 ''cd'') =
       tables example_conn"
    using remove_updates_existing_row_only [OF conn0 ckey0 pkey0, of 101 1003 "''cd''"] none
    by simp_all
  show ?thesis
    unfolding row_columns_def c p absent
    by (simp add: example_card_row_def example_permission_row_def inserted_row_def)
qed

subsection \<open>Operations of other kinds\<close>

text \<open>
  Claim C8. For an applied operation whose tag is none of 41, 42, 43, 44, 45 and 64 the
  round of the loop returns normally with the plugin state unchanged (no statement is
  sent, no table changes), and the loop goes on: the block is projected as if the
  operation were not in the list.
\<close>

theorem unrecognized_operation_skipped:
  assumes "operation_which (operation_history_object.op o_op) \<notin> {41, 42, 43, 44, 45, 64}"
  shows "on_block_operation impl b o_op = Some impl \<and>
         on_block_loop impl b (before @ Some o_op # after) = on_block_loop impl b (before @ after)"
proof
  show step: "on_block_operation impl b o_op = Some impl"
    using assms by (rule on_block_operation_unhandled)
  have skip: "on_block_operation i b o_op = Some i" for i
    using assms by (rule on_block_operation_unhandled)
  show "on_block_loop impl b (before @ Some o_op # after) = on_block_loop impl b (before @ after)"
  proof (induction before arbitrary: impl)
    case Nil
    show ?case by (simp add: skip)
  next
    case (Cons x xs)
    show ?case
    proof (cases x)
      case None
      then show ?thesis by (simp add: Cons.IH)
    next
      case (Some h)
      then show ?thesis by (simp add: Cons.IH split: option.split)
    qed
  qed
qed

text \<open>The theorem at an operation with tag 7 between a create and a remove.\<close>

theorem unrecognized_operation_witness:
  "on_block_operation example_impl example_block example_other = Some example_impl \<and>
   on_block_loop example_impl example_block
     (take 1 create_then_remove @ Some example_other # drop 1 create_then_remove) =
   on_block_loop example_impl example_block (take 1 create_then_remove @ drop 1 create_then_remove)"
proof -
  have "operation_which (operation_history_object.op example_other) \<notin> {41, 42, 43, 44, 45, 64}"
    by (simp add: example_other_def other_tag_which.rep_eq make_other_tag.rep_eq)
  then show ?thesis
    by (rule unrecognized_operation_skipped)
qed

subsection \<open>Blocks below the start block\<close>

text \<open>
  Claim C9. For a block whose number is below the configured start block, \<open>on_block\<close>
  returns at once with the plugin state unchanged: no statement is sent and neither
  table changes.
\<close>

theorem below_start_block_no_writes:
  assumes "signed_block.block_num b < start_block impl"
  shows "on_block impl b hist = Some impl"
  using assms by (simp add: on_block_def split: option.split)

text \<open>The theorem at block 100 with the start block set to 200.\<close>

theorem below_start_block_witness:
  "on_block (example_impl\<lparr>start_block := 200\<rparr>) example_block create_then_remove =
     Some (example_impl\<lparr>start_block := 200\<rparr>)"
proof -
  have "signed_block.block_num example_block < start_block (example_impl\<lparr>start_block := 200\<rparr>)"
    by (simp add: example_block_def)
  then show ?thesis
    by (rule below_start_block_no_writes)
qed

section \<open>Room validation: the accepted operations\<close>

text \<open>
  Claim C10. \<open>room_create_operation::validate\<close> returns without throwing exactly when the
  fee amount is non-negative, the room name is non-empty and at most 256 characters long,
  and the room key is non-empty. The function has no state to modify: its only result is
  the unit value or the exception.
\<close>

theorem room_create_validate_succeeds_iff:
  fixes op :: room_create_operation
  shows "(room_create_validate op = Inr ()) =
     (0 \<le> sint (amount (fee op)) \<and> name op \<noteq> [] \<and> length (name op) \<le> 256 \<and> room_key op \<noteq> [])"
  by (simp add: room_create_validate_def)

end
